theory Spec2Isabelle
  imports Main
begin

section \<open>The world the authentication handler runs in\<close>

text \<open>
  The handler of \<^verbatim>\<open>auth.py\<close> is a class whose methods read the process environment, probe
  and write the file system and call the identity provider's client library. The model
  makes all of that explicit: a \<open>world\<close> holds what the operating system would answer,
  every method is a function from a world to a new world and either an error (the exception
  raised) or a value, and the calls that leave the process are recorded in a trace. Every
  call of the libraries that can raise can raise in the model: the world says which do.

  Strings are lists of characters with code points below 256.
\<close>

subsection \<open>Truthiness, whitespace, newlines\<close>

text \<open>Python's \<^verbatim>\<open>if x:\<close> on an \<^verbatim>\<open>Optional[str]\<close>: \<^verbatim>\<open>None\<close> and the empty string are false.\<close>

definition truthy :: "string option \<Rightarrow> bool" where
  "truthy x = (case x of None \<Rightarrow> False | Some s \<Rightarrow> s \<noteq> [])"

text \<open>The characters \<^verbatim>\<open>str.isspace\<close> accepts among the code points below 256.\<close>

definition isspace :: "char \<Rightarrow> bool" where
  "isspace c = (c \<in> set [CHR 0x09, CHR 0x0A, CHR 0x0B, CHR 0x0C, CHR 0x0D,
                          CHR 0x1C, CHR 0x1D, CHR 0x1E, CHR 0x1F, CHR 0x20,
                          CHR 0x85, CHR 0xA0])"

text \<open>\<^verbatim>\<open>str.strip()\<close>: whitespace is removed at both ends.\<close>

definition strip :: "string \<Rightarrow> string" where
  "strip s = rev (dropWhile isspace (rev (dropWhile isspace s)))"

text \<open>
  \<^verbatim>\<open>Path.write_text\<close> and \<^verbatim>\<open>Path.read_text\<close> open the file in text mode with the default
  newline handling: on writing a line feed becomes the platform's line separator (carriage
  return and line feed where \<^verbatim>\<open>os.name\<close> is \<^verbatim>\<open>"nt"\<close>), on reading a carriage return, alone
  or followed by a line feed, becomes a line feed.
\<close>

definition linesep_newlines :: "string \<Rightarrow> string \<Rightarrow> string" where
  "linesep_newlines osname s =
     (if osname = ''nt''
      then concat (map (\<lambda>c. if c = CHR 0x0A then [CHR 0x0D, CHR 0x0A] else [c]) s)
      else s)"

fun universal_newlines :: "string \<Rightarrow> string" where
  "universal_newlines [] = []"
| "universal_newlines [c] = (if c = CHR 0x0D then [CHR 0x0A] else [c])"
| "universal_newlines (c # d # ds) =
     (if c = CHR 0x0D \<and> d = CHR 0x0A then CHR 0x0A # universal_newlines ds
      else if c = CHR 0x0D then CHR 0x0A # universal_newlines (d # ds)
      else c # universal_newlines (d # ds))"

subsection \<open>Paths\<close>

text \<open>
  A \<^verbatim>\<open>pathlib.Path\<close> is held as its \<^verbatim>\<open>parts\<close>: the anchor (\<^verbatim>\<open>/\<close>, or \<^verbatim>\<open>//\<close> for exactly
  two leading slashes) if the path is absolute, then the components. Parsing follows the
  POSIX flavour: the text is split at slashes, empty components and \<^verbatim>\<open>.\<close> are dropped.
\<close>

type_synonym path = "string list"

fun split_sep :: "char \<Rightarrow> string \<Rightarrow> string list" where
  "split_sep sep [] = [[]]"
| "split_sep sep (c # cs) =
     (if c = sep then [] # split_sep sep cs
      else (case split_sep sep cs of
              [] \<Rightarrow> [[c]]
            | x # xs \<Rightarrow> (c # x) # xs))"

definition anchor :: "string \<Rightarrow> string list" where
  "anchor s =
     (if take 1 s \<noteq> ''/'' then []
      else if take 1 (drop 1 s) \<noteq> ''/'' \<or> take 1 (drop 2 s) = ''/'' then [''/'']
      else [''//''])"

definition Path :: "string \<Rightarrow> path" where
  "Path s = anchor s @ filter (\<lambda>x. x \<noteq> [] \<and> x \<noteq> ''.'') (split_sep (CHR ''/'') s)"

text \<open>\<^verbatim>\<open>Path.parent\<close>: a path with no component after its anchor is its own parent.\<close>

definition parent :: "path \<Rightarrow> path" where
  "parent p =
     (case p of
        [] \<Rightarrow> []
      | [c] \<Rightarrow> (if c = ''/'' \<or> c = ''//'' then [c] else [])
      | c # d # ds \<Rightarrow> butlast p)"

text \<open>The \<^verbatim>\<open>/\<close> operator of \<^verbatim>\<open>pathlib\<close>: an absolute right operand replaces the left one.\<close>

definition joinpath :: "path \<Rightarrow> string \<Rightarrow> path" where
  "joinpath p s = (if anchor s = [] then p @ Path s else Path s)"

subsection \<open>Errors, file-system nodes, events\<close>

type_synonym dict = "string \<rightharpoonup> string"

datatype fs_op = Stat path | Mkdir path | Chmod path | Write path | Read path

text \<open>
  The exceptions of the program, all subclasses of \<^verbatim>\<open>Exception\<close>. \<open>ValueError\<close> carries the
  message of line 68, \<open>DeviceFlowValueError\<close> is the \<^verbatim>\<open>ValueError\<close> of line 139 with the
  provider's response, \<open>AuthenticationFailed\<close> the \<^verbatim>\<open>Exception\<close> of line 159 with the error
  text. \<open>OSError\<close> is a refusal of the operating system other than the named ones
  (permissions, a read-only mount, a full disk, an encoding failure); \<open>StdoutError\<close> is
  what \<^verbatim>\<open>print\<close> raises when the line cannot be written (a \<^verbatim>\<open>UnicodeEncodeError\<close> where the
  output cannot encode the marks of the line, an error of a closed output);
  \<open>RuntimeError\<close> is what \<^verbatim>\<open>Path.home()\<close> raises when there is no home directory;
  \<open>ProviderError\<close> is whatever the provider's client raises.
\<close>

datatype error =
    ValueError string
  | DeviceFlowValueError dict
  | AuthenticationFailed string
  | KeyError string
  | ImportError
  | FileNotFoundError path
  | FileExistsError path
  | NotADirectoryError path
  | IsADirectoryError path
  | OSError fs_op
  | StdoutError
  | RuntimeError
  | ProviderError string

text \<open>
  The \<^verbatim>\<open>dotenv\<close> package: not installed, or installed with a \<^verbatim>\<open>load_dotenv\<close> that raises
  (a \<^verbatim>\<open>.env\<close> file that cannot be read or decoded), or with one that returns after adding the
  variables of the file it found (none when there is no file).
\<close>

datatype dotenv_package = NotInstalled | LoadFails error | Loads dict

definition is_not_found :: "error \<Rightarrow> bool" where
  "is_not_found e = (case e of FileNotFoundError q \<Rightarrow> True | _ \<Rightarrow> False)"

text \<open>A regular file with its content and permission bits, or a directory with its bits.\<close>

datatype node = File string nat | Dir nat

text \<open>
  The lines the program prints, one constructor per \<^verbatim>\<open>print\<close>, in the order of the
  source (lines 100, 103, 113, 115, 121, 126, 131, 134, 141 to 146 and 151), with the
  values formatted into the line: \<open>OpeningRule\<close> is the rule below an empty line,
  \<open>ClosingRule\<close> the rule above one.
\<close>

datatype message =
    LoadedToken path
  | LoadWarning path error
  | SavedToken path
  | SaveError path error
  | AttemptingSilentRefresh
  | RefreshedSilently
  | SilentRefreshFailed string
  | FallingBack
  | OpeningRule
  | AuthenticationRequired
  | Rule
  | OpenOnAnyDevice string
  | EnterThisCode string
  | ClosingRule
  | AuthenticationSuccessful

text \<open>
  What is recorded: the printed lines, the reads of the process environment, and the calls
  to the provider's client (its construction and its three token operations).
\<close>

datatype event =
    Print message
  | Getenv string
  | LoadDotenv
  | PublicClientApplication string string
  | AcquireTokenByRefreshToken string "string list"
  | InitiateDeviceFlow "string list"
  | AcquireTokenByDeviceFlow dict

text \<open>
  The world: the file system (\<open>nodes\<close>: what is found at a path; two paths are two
  places, so links and \<^verbatim>\<open>..\<close> are not followed), the operations the operating system
  refuses (\<open>faults\<close>), the permission bits it gives to a new directory and a new file, the
  process environment, the \<^verbatim>\<open>dotenv\<close> package, \<^verbatim>\<open>os.name\<close>, the directory \<^verbatim>\<open>Path.home()\<close>
  answers (\<open>None\<close> when it raises), the lines that cannot be printed (\<open>print_fault\<close>), the
  exception the construction of the provider's client raises, if any (\<open>app_fault\<close>), and
  the trace.
\<close>

record world =
  nodes :: "path \<rightharpoonup> node"
  faults :: "fs_op list"
  dir_mode0 :: nat
  file_mode0 :: nat
  environ :: "string \<rightharpoonup> string"
  dotenv :: dotenv_package
  os_name :: string
  home :: "path option"
  print_fault :: "message \<Rightarrow> bool"
  app_fault :: "error option"
  trace :: "event list"

subsection \<open>Actions\<close>

text \<open>
  An action runs in a world and gives the world after it with the exception raised
  (\<open>Inl\<close>) or the value returned (\<open>Inr\<close>).
\<close>

type_synonym 'a io = "world \<Rightarrow> world \<times> (error + 'a)"

definition io_return :: "'a \<Rightarrow> 'a io" where
  "io_return x = (\<lambda>w. (w, Inr x))"

definition io_raise :: "error \<Rightarrow> 'a io" where
  "io_raise e = (\<lambda>w. (w, Inl e))"

definition io_bind :: "'a io \<Rightarrow> ('a \<Rightarrow> 'b io) \<Rightarrow> 'b io" where
  "io_bind m f = (\<lambda>w. case m w of (w1, Inl e) \<Rightarrow> (w1, Inl e) | (w1, Inr x) \<Rightarrow> f x w1)"

text \<open>\<^verbatim>\<open>try: m  except Exception as e: h e\<close>\<close>

definition io_try :: "'a io \<Rightarrow> (error \<Rightarrow> 'a io) \<Rightarrow> 'a io" where
  "io_try m h = (\<lambda>w. case m w of (w1, Inl e) \<Rightarrow> h e w1 | (w1, Inr x) \<Rightarrow> (w1, Inr x))"

definition emit :: "event \<Rightarrow> unit io" where
  "emit ev = (\<lambda>w. (w\<lparr>trace := trace w @ [ev]\<rparr>, Inr ()))"

text \<open>\<^verbatim>\<open>print\<close>: the line is written, or the exception of the output is raised.\<close>

definition print :: "message \<Rightarrow> unit io" where
  "print m = (\<lambda>w. if print_fault w m then (w, Inl StdoutError) else emit (Print m) w)"

text \<open>Every line can be printed.\<close>

definition stdout_ok :: "world \<Rightarrow> bool" where
  "stdout_ok w = (\<forall>m. \<not> print_fault w m)"

text \<open>The events that are calls of the provider's client, its construction included.\<close>

fun provider_event :: "event \<Rightarrow> bool" where
  "provider_event (PublicClientApplication c a) = True"
| "provider_event (AcquireTokenByRefreshToken t s) = True"
| "provider_event (InitiateDeviceFlow s) = True"
| "provider_event (AcquireTokenByDeviceFlow f) = True"
| "provider_event ev = False"

text \<open>The events that are calls of the refresh exchange, and of the device flow.\<close>

fun refresh_exchange_event :: "event \<Rightarrow> bool" where
  "refresh_exchange_event (AcquireTokenByRefreshToken t s) = True"
| "refresh_exchange_event ev = False"

fun device_flow_event :: "event \<Rightarrow> bool" where
  "device_flow_event (InitiateDeviceFlow s) = True"
| "device_flow_event (AcquireTokenByDeviceFlow f) = True"
| "device_flow_event ev = False"

subsection \<open>File-system operations\<close>

text \<open>
  \<^verbatim>\<open>os.path.exists\<close> never raises: where the operating system refuses to look at the path
  (\<open>Stat\<close>), it answers that the path does not exist.
\<close>

definition os_path_exists :: "world \<Rightarrow> path \<Rightarrow> bool" where
  "os_path_exists w p = (Stat p \<notin> set (faults w) \<and> nodes w p \<noteq> None)"

text \<open>
  \<^verbatim>\<open>Path.exists\<close> and \<^verbatim>\<open>Path.is_dir\<close> answer for a path that is there or is missing, and raise
  the refusal of the operating system to look at it.
\<close>

definition path_exists :: "path \<Rightarrow> bool io" where
  "path_exists p = (\<lambda>w.
     if Stat p \<in> set (faults w) then (w, Inl (OSError (Stat p)))
     else (w, Inr (nodes w p \<noteq> None)))"

definition is_dir :: "world \<Rightarrow> path \<Rightarrow> bool" where
  "is_dir w p = (case nodes w p of Some (Dir m) \<Rightarrow> True | _ \<Rightarrow> False)"

definition path_is_dir :: "path \<Rightarrow> bool io" where
  "path_is_dir p = (\<lambda>w.
     if Stat p \<in> set (faults w) then (w, Inl (OSError (Stat p)))
     else (w, Inr (is_dir w p)))"

text \<open>\<^verbatim>\<open>Path.home()\<close>\<close>

definition path_home :: "path io" where
  "path_home = (\<lambda>w. case home w of None \<Rightarrow> (w, Inl RuntimeError) | Some h \<Rightarrow> (w, Inr h))"

text \<open>\<^verbatim>\<open>os.mkdir\<close>: the path must be new and its parent a directory.\<close>

definition os_mkdir :: "path \<Rightarrow> unit io" where
  "os_mkdir p = (\<lambda>w.
     if nodes w p \<noteq> None then (w, Inl (FileExistsError p))
     else (case nodes w (parent p) of
             None \<Rightarrow> (w, Inl (FileNotFoundError p))
           | Some (File c m) \<Rightarrow> (w, Inl (NotADirectoryError p))
           | Some (Dir m) \<Rightarrow>
               if Mkdir p \<in> set (faults w) then (w, Inl (OSError (Mkdir p)))
               else (w\<lparr>nodes := (nodes w)(p \<mapsto> Dir (dir_mode0 w))\<rparr>, Inr ())))"

text \<open>
  \<^verbatim>\<open>Path.mkdir(parents=False, exist_ok=True)\<close>: an error other than a missing parent is
  forgiven when the path is a directory.
\<close>

definition mkdir_exist_ok :: "path \<Rightarrow> unit io" where
  "mkdir_exist_ok p = (\<lambda>w.
     case os_mkdir p w of
       (w1, Inr u) \<Rightarrow> (w1, Inr u)
     | (w1, Inl e) \<Rightarrow>
         if is_not_found e then (w1, Inl e)
         else (case path_is_dir p w1 of
                 (w2, Inl e2) \<Rightarrow> (w2, Inl e2)
               | (w2, Inr d) \<Rightarrow> if d then (w2, Inr ()) else (w2, Inl e)))"

text \<open>
  \<^verbatim>\<open>Path.mkdir(parents=True, exist_ok=True)\<close>: when the parent is missing it is made first,
  the same way, and the directory is then made without \<^verbatim>\<open>parents\<close>.
\<close>

function mkdir_parents :: "path \<Rightarrow> unit io" where
  "mkdir_parents p w =
     (case os_mkdir p w of
        (w1, Inr u) \<Rightarrow> (w1, Inr u)
      | (w1, Inl e) \<Rightarrow>
          if is_not_found e then
            (if parent p = p then (w1, Inl e)
             else (case mkdir_parents (parent p) w1 of
                     (w2, Inl e2) \<Rightarrow> (w2, Inl e2)
                   | (w2, Inr u) \<Rightarrow> mkdir_exist_ok p w2))
          else (case path_is_dir p w1 of
                  (w2, Inl e2) \<Rightarrow> (w2, Inl e2)
                | (w2, Inr d) \<Rightarrow> if d then (w2, Inr ()) else (w2, Inl e)))"
  by pat_completeness auto

termination
  by (relation "measure (\<lambda>(p, w). length p)")
     (auto simp: parent_def split: list.splits if_splits)

text \<open>\<^verbatim>\<open>os.chmod\<close> and \<^verbatim>\<open>Path.chmod\<close>: the permission bits of an existing node are replaced.\<close>

definition chmod :: "path \<Rightarrow> nat \<Rightarrow> unit io" where
  "chmod p mode = (\<lambda>w.
     if Chmod p \<in> set (faults w) then (w, Inl (OSError (Chmod p)))
     else (case nodes w p of
             None \<Rightarrow> (w, Inl (FileNotFoundError p))
           | Some (File c m) \<Rightarrow> (w\<lparr>nodes := (nodes w)(p \<mapsto> File c mode)\<rparr>, Inr ())
           | Some (Dir m) \<Rightarrow> (w\<lparr>nodes := (nodes w)(p \<mapsto> Dir mode)\<rparr>, Inr ())))"

text \<open>
  \<^verbatim>\<open>Path.write_text\<close>: an existing file is truncated and keeps its permission bits, a new
  file is created in an existing directory; the text becomes the whole content.
\<close>

definition write_text :: "path \<Rightarrow> string \<Rightarrow> unit io" where
  "write_text p s = (\<lambda>w.
     if Write p \<in> set (faults w) then (w, Inl (OSError (Write p)))
     else (case nodes w p of
             Some (Dir m) \<Rightarrow> (w, Inl (IsADirectoryError p))
           | Some (File c m) \<Rightarrow>
               (w\<lparr>nodes := (nodes w)(p \<mapsto> File (linesep_newlines (os_name w) s) m)\<rparr>, Inr ())
           | None \<Rightarrow>
               (case nodes w (parent p) of
                  None \<Rightarrow> (w, Inl (FileNotFoundError p))
                | Some (File c m) \<Rightarrow> (w, Inl (NotADirectoryError p))
                | Some (Dir m) \<Rightarrow>
                    (w\<lparr>nodes := (nodes w)(p \<mapsto> File (linesep_newlines (os_name w) s) (file_mode0 w))\<rparr>,
                     Inr ()))))"

definition read_text :: "path \<Rightarrow> string io" where
  "read_text p = (\<lambda>w.
     if Read p \<in> set (faults w) then (w, Inl (OSError (Read p)))
     else (case nodes w p of
             None \<Rightarrow> (w, Inl (FileNotFoundError p))
           | Some (Dir m) \<Rightarrow> (w, Inl (IsADirectoryError p))
           | Some (File c m) \<Rightarrow> (w, Inr (universal_newlines c))))"

section \<open>The authentication handler\<close>

subsection \<open>The provider's client and the handler's fields\<close>

text \<open>
  The three operations of \<^verbatim>\<open>msal.PublicClientApplication\<close> the handler calls. The library
  is not part of the program, so what each call answers (a response, or an exception) is a
  parameter; one \<open>provider\<close> value describes the provider during one call of
  \<open>get_access_token\<close>.
\<close>

record provider =
  acquire_token_by_refresh_token :: "string \<Rightarrow> string list \<Rightarrow> error + dict"
  initiate_device_flow :: "string list \<Rightarrow> error + dict"
  acquire_token_by_device_flow :: "dict \<Rightarrow> error + dict"

text \<open>
  The fields \<^verbatim>\<open>__init__\<close> sets, but for \<^verbatim>\<open>self.app\<close>, which is the provider above. No
  method other than \<^verbatim>\<open>__init__\<close> assigns to a field: the instance a method is called on
  is the instance after the call.
\<close>

record OneNoteAuth =
  is_container :: bool
  client_id :: string
  tenant_id :: string
  scope :: "string list"
  token_path :: path
  refresh_token :: "string option"

definition io_result :: "error + 'a \<Rightarrow> 'a io" where
  "io_result r = (\<lambda>w. (w, r))"

text \<open>A call of the provider's client: recorded, then answered.\<close>

definition call :: "event \<Rightarrow> error + 'a \<Rightarrow> 'a io" where
  "call ev r = io_bind (emit ev) (\<lambda>_. io_result r)"

text \<open>\<^verbatim>\<open>msal.PublicClientApplication(client_id, authority=...)\<close>\<close>

definition construct_app :: "string \<Rightarrow> string \<Rightarrow> unit io" where
  "construct_app cid authority = (\<lambda>w.
     call (PublicClientApplication cid authority)
          (case app_fault w of Some e \<Rightarrow> Inl e | None \<Rightarrow> Inr ()) w)"

text \<open>\<^verbatim>\<open>d.get(k, default)\<close>\<close>

definition dict_get :: "dict \<Rightarrow> string \<Rightarrow> string \<Rightarrow> string" where
  "dict_get d k dflt = (case d k of Some v \<Rightarrow> v | None \<Rightarrow> dflt)"

text \<open>The permission bits \<^verbatim>\<open>0o700\<close> and \<^verbatim>\<open>0o600\<close>.\<close>

definition mode_0o700 :: nat where
  "mode_0o700 = 7 * 8 ^ 2 + 0 * 8 + 0"

definition mode_0o600 :: nat where
  "mode_0o600 = 6 * 8 ^ 2 + 0 * 8 + 0"

subsection \<open>The client identifier\<close>

definition os_getenv :: "string \<Rightarrow> string option io" where
  "os_getenv name = (\<lambda>w. (w\<lparr>trace := trace w @ [Getenv name]\<rparr>, Inr (environ w name)))"

text \<open>\<^verbatim>\<open>from dotenv import load_dotenv\<close>: fails when the package is not installed.\<close>

definition import_dotenv :: "unit io" where
  "import_dotenv = (\<lambda>w. case dotenv w of NotInstalled \<Rightarrow> (w, Inl ImportError) | _ \<Rightarrow> (w, Inr ()))"

text \<open>
  \<^verbatim>\<open>load_dotenv()\<close>: the call is recorded; it raises, or the variables of the file are
  added to the process environment, where a variable that is already set keeps its value.
\<close>

definition load_dotenv :: "unit io" where
  "load_dotenv = (\<lambda>w.
     case dotenv w of
       NotInstalled \<Rightarrow> (w, Inl ImportError)
     | LoadFails e \<Rightarrow> (w\<lparr>trace := trace w @ [LoadDotenv]\<rparr>, Inl e)
     | Loads vars \<Rightarrow> (w\<lparr>environ := vars ++ environ w, trace := trace w @ [LoadDotenv]\<rparr>, Inr ()))"

definition guidance_options :: "string list" where
  "guidance_options =
     [''1. Pass as argument: OneNoteAuth(client_id='...')'',
      ''2. Set environment variable: export MS_CLIENT_ID='...'' @ [CHR 0x27],
      ''3. Create .env file for local development (only if not in container)'']"

text \<open>
  The message of the \<^verbatim>\<open>ValueError\<close> of line 68: a heading and the three options, one per
  line.
\<close>

definition guidance :: string where
  "guidance = ''MS_CLIENT_ID must be set. Options:''
     @ concat (map (\<lambda>l. CHR 0x0A # l) guidance_options)"

text \<open>
  Priority 3 of \<^verbatim>\<open>_get_client_id\<close>, the body of its \<^verbatim>\<open>try\<close>: \<open>Some\<close> is the value the method
  returns from there, \<open>None\<close> is falling through to the \<^verbatim>\<open>raise\<close>.
\<close>

definition client_id_from_dotenv :: "string option io" where
  "client_id_from_dotenv =
     io_try
       (io_bind import_dotenv (\<lambda>_.
        io_bind load_dotenv (\<lambda>_.
        io_bind (os_getenv ''MS_CLIENT_ID'') (\<lambda>env_client_id.
        io_return (if truthy env_client_id then env_client_id else None)))))
       (\<lambda>e. if e = ImportError then io_return None else io_raise e)"

definition get_client_id :: "bool \<Rightarrow> string option \<Rightarrow> string io" where
  "get_client_id is_cont cid =
     (if truthy cid then io_return (the cid)
      else
        io_bind (os_getenv ''MS_CLIENT_ID'') (\<lambda>env_client_id.
          if truthy env_client_id then io_return (the env_client_id)
          else
            io_bind (if \<not> is_cont then client_id_from_dotenv else io_return None) (\<lambda>found.
              case found of
                Some v \<Rightarrow> io_return v
              | None \<Rightarrow> io_raise (ValueError guidance))))"

subsection \<open>The credential store\<close>

definition resolve_token_path :: "string option \<Rightarrow> path io" where
  "resolve_token_path tp =
     (if truthy tp then io_return (Path (the tp))
      else
        (let docker_path = Path ''/run/secrets/ms_refresh_token'' in
         io_bind (path_exists (parent docker_path)) (\<lambda>found.
           if found then io_return docker_path
           else
             io_bind path_home (\<lambda>h.
             io_return (joinpath (joinpath h ''.onenote_rag'') ''refresh_token'')))))"

text \<open>An action that runs only where \<^verbatim>\<open>os.name != "nt"\<close>.\<close>

definition unless_nt :: "unit io \<Rightarrow> unit io" where
  "unless_nt m = (\<lambda>w. if os_name w \<noteq> ''nt'' then m w else (w, Inr ()))"

definition ensure_token_dir :: "path \<Rightarrow> unit io" where
  "ensure_token_dir tp =
     io_bind (path_exists (parent tp)) (\<lambda>found.
       if \<not> found then
         io_bind (mkdir_parents (parent tp)) (\<lambda>_.
           unless_nt (chmod (parent tp) mode_0o700))
       else io_return ())"

definition load_refresh_token :: "path \<Rightarrow> string option io" where
  "load_refresh_token tp =
     io_try
       (io_bind (path_exists tp) (\<lambda>found.
          if found then
            io_bind (read_text tp) (\<lambda>text.
              let token = strip text in
              io_bind (print (LoadedToken tp)) (\<lambda>_.
              io_return (if token \<noteq> [] then Some token else None)))
          else io_return None))
       (\<lambda>e. io_bind (print (LoadWarning tp e)) (\<lambda>_. io_return None))"

definition save_refresh_token :: "path \<Rightarrow> string \<Rightarrow> unit io" where
  "save_refresh_token tp token =
     io_try
       (io_bind (ensure_token_dir tp) (\<lambda>_.
        io_bind (write_text tp token) (\<lambda>_.
        io_bind (unless_nt (chmod tp mode_0o600)) (\<lambda>_.
        print (SavedToken tp)))))
       (\<lambda>e. io_bind (print (SaveError tp e)) (\<lambda>_. io_raise e))"

subsection \<open>Construction\<close>

definition OneNoteAuth_init :: "string option \<Rightarrow> string option \<Rightarrow> OneNoteAuth io" where
  "OneNoteAuth_init tp_arg cid_arg = (\<lambda>w.
     let is_cont = (os_path_exists w (Path ''/.dockerenv'')
                    \<or> os_path_exists w (Path ''/run/.containerenv'')) in
     io_bind (get_client_id is_cont cid_arg) (\<lambda>cid.
       let tenant = ''common'' in
       io_bind (resolve_token_path tp_arg) (\<lambda>tp.
       io_bind (construct_app cid (''https://login.microsoftonline.com/'' @ tenant)) (\<lambda>_.
       io_bind (load_refresh_token tp) (\<lambda>rt.
       io_return \<lparr>is_container = is_cont, client_id = cid, tenant_id = tenant,
                  scope = [''Notes.Read''], token_path = tp, refresh_token = rt\<rparr>)))) w)"

subsection \<open>Access tokens\<close>

text \<open>Lines 136 to 159 of \<^verbatim>\<open>get_access_token\<close>: the device code flow.\<close>

definition device_code_flow :: "provider \<Rightarrow> OneNoteAuth \<Rightarrow> string io" where
  "device_code_flow prov self =
     io_bind (call (InitiateDeviceFlow (scope self))
                   (initiate_device_flow prov (scope self))) (\<lambda>flow.
       case flow ''user_code'' of
         None \<Rightarrow> io_raise (DeviceFlowValueError flow)
       | Some code \<Rightarrow>
           io_bind (print OpeningRule) (\<lambda>_.
           io_bind (print AuthenticationRequired) (\<lambda>_.
           io_bind (print Rule) (\<lambda>_.
           case flow ''verification_uri'' of
             None \<Rightarrow> io_raise (KeyError ''verification_uri'')
           | Some uri \<Rightarrow>
               io_bind (print (OpenOnAnyDevice uri)) (\<lambda>_.
               io_bind (print (EnterThisCode code)) (\<lambda>_.
               io_bind (print ClosingRule) (\<lambda>_.
               io_bind (call (AcquireTokenByDeviceFlow flow)
                             (acquire_token_by_device_flow prov flow)) (\<lambda>result.
                 case result ''access_token'' of
                   Some access \<Rightarrow>
                     io_bind (print AuthenticationSuccessful) (\<lambda>_.
                     io_bind (case result ''refresh_token'' of
                                Some new \<Rightarrow> save_refresh_token (token_path self) new
                              | None \<Rightarrow> io_return ()) (\<lambda>_.
                     io_return access))
                 | None \<Rightarrow>
                     io_raise (AuthenticationFailed
                       (dict_get result ''error_description''
                          (dict_get result ''error'' ''Unknown error'')))))))))))"

definition get_access_token :: "provider \<Rightarrow> OneNoteAuth \<Rightarrow> string io" where
  "get_access_token prov self =
     (if truthy (refresh_token self) then
        io_bind (print AttemptingSilentRefresh) (\<lambda>_.
        io_bind (call (AcquireTokenByRefreshToken (the (refresh_token self)) (scope self))
                      (acquire_token_by_refresh_token prov (the (refresh_token self)) (scope self)))
          (\<lambda>result.
            case result ''access_token'' of
              Some access \<Rightarrow>
                io_bind (print RefreshedSilently) (\<lambda>_.
                io_bind (case result ''refresh_token'' of
                           Some new \<Rightarrow> save_refresh_token (token_path self) new
                         | None \<Rightarrow> io_return ()) (\<lambda>_.
                io_return access))
            | None \<Rightarrow>
                io_bind (print (SilentRefreshFailed
                           (dict_get result ''error_description'' ''Unknown error''))) (\<lambda>_.
                io_bind (print FallingBack) (\<lambda>_.
                device_code_flow prov self))))
      else device_code_flow prov self)"

section \<open>Worlds and providers of the scenarios\<close>

text \<open>
  A workstation: the home directory exists, the handler's directory below it does not;
  new directories get the bits \<^verbatim>\<open>0o755\<close> (493), new files \<^verbatim>\<open>0o644\<close> (420).
\<close>

definition local_world :: world where
  "local_world =
     \<lparr>nodes = [[''/''] \<mapsto> Dir 493, [''/'', ''home''] \<mapsto> Dir 493,
               [''/'', ''home'', ''user''] \<mapsto> Dir 448],
      faults = [], dir_mode0 = 493, file_mode0 = 420,
      environ = Map.empty, dotenv = NotInstalled, os_name = ''posix'',
      home = Some [''/'', ''home'', ''user''], print_fault = (\<lambda>m. False),
      app_fault = None, trace = []\<rparr>"

definition local_token_path :: path where
  "local_token_path = [''/'', ''home'', ''user'', ''.onenote_rag'', ''refresh_token'']"

text \<open>
  The same workstation after the handler's directory was made by hand, with the bits
  \<^verbatim>\<open>0o755\<close>.
\<close>

definition prepared_world :: world where
  "prepared_world =
     local_world\<lparr>nodes := (nodes local_world)
        ([''/'', ''home'', ''user'', ''.onenote_rag''] \<mapsto> Dir 493)\<rparr>"

text \<open>
  A container with a secret mount: the credential file is there, and the mount is
  read-only, so that the operating system refuses to write the file or change its bits.
\<close>

definition docker_token_path :: path where
  "docker_token_path = [''/'', ''run'', ''secrets'', ''ms_refresh_token'']"

definition docker_world :: world where
  "docker_world =
     \<lparr>nodes = [[''/''] \<mapsto> Dir 493, [''/'', ''.dockerenv''] \<mapsto> File [] 493,
               [''/'', ''run''] \<mapsto> Dir 493, [''/'', ''run'', ''secrets''] \<mapsto> Dir 493,
               docker_token_path \<mapsto> File ''old-cached-token'' 292],
      faults = [Write docker_token_path, Chmod docker_token_path],
      dir_mode0 = 493, file_mode0 = 420,
      environ = [''MS_CLIENT_ID'' \<mapsto> ''test-client-id''], dotenv = NotInstalled,
      os_name = ''posix'', home = Some [''/'', ''root''], print_fault = (\<lambda>m. False),
      app_fault = None, trace = []\<rparr>"

text \<open>The workstation with a credential file of blanks, and with one that cannot be read.\<close>

definition blank_world :: world where
  "blank_world =
     prepared_world\<lparr>nodes := (nodes prepared_world)
        (local_token_path \<mapsto> File [CHR 0x20, CHR 0x0A] 384)\<rparr>"

definition unreadable_world :: world where
  "unreadable_world =
     prepared_world\<lparr>nodes := (nodes prepared_world)(local_token_path \<mapsto> File ''tok'' 0),
                      faults := [Read local_token_path]\<rparr>"

text \<open>
  The workstation with a \<^verbatim>\<open>.env\<close> file that defines the client identifier, a container with
  the same file but no variable in its environment, and the workstation with a \<^verbatim>\<open>.env\<close> file
  that cannot be read.
\<close>

definition unreadable_dotenv_world :: world where
  "unreadable_dotenv_world = local_world\<lparr>dotenv := LoadFails (OSError (Read [''.env'']))\<rparr>"

definition dotenv_world :: world where
  "dotenv_world = local_world\<lparr>dotenv := Loads [''MS_CLIENT_ID'' \<mapsto> ''from-dotenv'']\<rparr>"

definition bare_container_world :: world where
  "bare_container_world =
     docker_world\<lparr>environ := Map.empty, dotenv := Loads [''MS_CLIENT_ID'' \<mapsto> ''from-dotenv'']\<rparr>"

text \<open>
  The providers of the test scenarios: the device flow answers with a user code and then
  with both tokens; the refresh exchange answers with both tokens (scenario B), or with
  \<^verbatim>\<open>invalid_grant\<close> (scenario C). In scenario E the refresh exchange fails and the device
  flow gives no user code.
\<close>

definition device_flow_response :: dict where
  "device_flow_response =
     [''user_code'' \<mapsto> ''ABCD-EFGH'',
      ''verification_uri'' \<mapsto> ''https://microsoft.com/devicelogin'']"

definition device_tokens :: dict where
  "device_tokens =
     [''access_token'' \<mapsto> ''device-flow-access-token'',
      ''refresh_token'' \<mapsto> ''device-flow-refresh-token'']"

definition scenario_B :: provider where
  "scenario_B =
     \<lparr>acquire_token_by_refresh_token = (\<lambda>t s. Inr [''access_token'' \<mapsto> ''new-access-token-xyz'',
                                                  ''refresh_token'' \<mapsto> ''new-refresh-token-abc'']),
      initiate_device_flow = (\<lambda>s. Inr device_flow_response),
      acquire_token_by_device_flow = (\<lambda>f. Inr device_tokens)\<rparr>"

definition scenario_C :: provider where
  "scenario_C =
     \<lparr>acquire_token_by_refresh_token = (\<lambda>t s. Inr [''error'' \<mapsto> ''invalid_grant'']),
      initiate_device_flow = (\<lambda>s. Inr device_flow_response),
      acquire_token_by_device_flow = (\<lambda>f. Inr device_tokens)\<rparr>"

definition scenario_E :: provider where
  "scenario_E =
     \<lparr>acquire_token_by_refresh_token = (\<lambda>t s. Inr [''error'' \<mapsto> ''invalid_grant'']),
      initiate_device_flow = (\<lambda>s. Inr [''error'' \<mapsto> ''invalid_client'']),
      acquire_token_by_device_flow = (\<lambda>f. Inr device_tokens)\<rparr>"

text \<open>
  The workstation with the variable \<^verbatim>\<open>MS_CLIENT_ID\<close> set, without and with a cached
  credential, and the handlers \<^verbatim>\<open>OneNoteAuth()\<close> constructs there and in the container.
\<close>

definition fresh_world :: world where
  "fresh_world = local_world\<lparr>environ := [''MS_CLIENT_ID'' \<mapsto> ''test-client-id'']\<rparr>"

definition cached_world :: world where
  "cached_world =
     fresh_world\<lparr>nodes := (nodes local_world)
        ([''/'', ''home'', ''user'', ''.onenote_rag''] \<mapsto> Dir 448,
         local_token_path \<mapsto> File ''old-cached-token'' 384)\<rparr>"

definition fresh_auth :: OneNoteAuth where
  "fresh_auth =
     \<lparr>is_container = False, client_id = ''test-client-id'', tenant_id = ''common'',
      scope = [''Notes.Read''], token_path = local_token_path, refresh_token = None\<rparr>"

definition cached_auth :: OneNoteAuth where
  "cached_auth = fresh_auth\<lparr>refresh_token := Some ''old-cached-token''\<rparr>"

definition docker_auth :: OneNoteAuth where
  "docker_auth =
     \<lparr>is_container = True, client_id = ''test-client-id'', tenant_id = ''common'',
      scope = [''Notes.Read''], token_path = docker_token_path,
      refresh_token = Some ''old-cached-token''\<rparr>"

text \<open>
  The container before any credential was stored: the read-only secret mount is empty,
  and the handler constructed there has no cached credential.
\<close>

definition docker_fresh_world :: world where
  "docker_fresh_world = docker_world\<lparr>nodes := (nodes docker_world)(docker_token_path := None)\<rparr>"

definition docker_fresh_auth :: OneNoteAuth where
  "docker_fresh_auth = docker_auth\<lparr>refresh_token := None\<rparr>"

text \<open>
  An output that cannot encode the marks of the program's lines: the lines of
  \<^verbatim>\<open>auth.py\<close> that carry one are those of lines 100, 103, 113, 115, 121, 126, 132, 142 and
  151. The workstation with a cached credential and such an output.
\<close>

fun marked :: "message \<Rightarrow> bool" where
  "marked FallingBack = False"
| "marked (OpenOnAnyDevice uri) = False"
| "marked (EnterThisCode code) = False"
| "marked OpeningRule = False"
| "marked Rule = False"
| "marked ClosingRule = False"
| "marked m = True"

definition ascii_world :: world where
  "ascii_world = cached_world\<lparr>print_fault := marked\<rparr>"

text \<open>
  The workstation where the operating system refuses to look at \<^verbatim>\<open>/run/secrets\<close>, and the
  one where no home directory can be determined.
\<close>

definition guarded_world :: world where
  "guarded_world = local_world\<lparr>faults := [Stat [''/'', ''run'', ''secrets'']]\<rparr>"

definition homeless_world :: world where
  "homeless_world = local_world\<lparr>home := None\<rparr>"

section \<open>Properties\<close>

subsection \<open>Unfolding and evaluation\<close>

lemmas io_defs = io_return_def io_raise_def io_bind_def io_try_def emit_def print_def
  io_result_def call_def unless_nt_def

declare mkdir_parents.simps [simp del]

lemmas eval_defs = save_refresh_token_def load_refresh_token_def ensure_token_dir_def
  mkdir_parents.simps mkdir_exist_ok_def os_mkdir_def chmod_def write_text_def read_text_def
  path_exists_def os_path_exists_def path_is_dir_def path_home_def is_dir_def is_not_found_def
  parent_def unless_nt_def
  io_return_def io_raise_def io_bind_def io_try_def emit_def print_def io_result_def call_def
  construct_app_def
  linesep_newlines_def strip_def isspace_def mode_0o700_def mode_0o600_def

lemmas init_defs = OneNoteAuth_init_def get_client_id_def client_id_from_dotenv_def
  import_dotenv_def load_dotenv_def os_getenv_def resolve_token_path_def truthy_def
  Path_def anchor_def joinpath_def Let_def

lemmas flow_defs = get_access_token_def device_code_flow_def dict_get_def truthy_def

lemma stdout_okD: "stdout_ok w \<Longrightarrow> print_fault w m = False"
  by (simp add: stdout_ok_def)

lemma print_ok:
  "stdout_ok w \<Longrightarrow> print m w = (w\<lparr>trace := trace w @ [Print m]\<rparr>, Inr ())"
  by (simp add: print_def emit_def stdout_ok_def)

lemma stdout_ok_trace [simp]: "stdout_ok (w\<lparr>trace := t\<rparr>) = stdout_ok w"
  by (simp add: stdout_ok_def)

lemma stdout_ok_nodes [simp]: "stdout_ok (w\<lparr>nodes := n\<rparr>) = stdout_ok w"
  by (simp add: stdout_ok_def)

subsection \<open>The scenarios, evaluated\<close>

text \<open>
  What the store does on the workstation, what \<^verbatim>\<open>OneNoteAuth()\<close> constructs in each world,
  and what the first call of \<open>get_access_token\<close> gives there.
\<close>

lemma save_local:
  "save_refresh_token local_token_path ''tok'' local_world =
     (local_world\<lparr>nodes := (nodes local_world)
         ([''/'', ''home'', ''user'', ''.onenote_rag''] \<mapsto> Dir 448,
          local_token_path \<mapsto> File ''tok'' 384),
        trace := [Print (SavedToken local_token_path)]\<rparr>, Inr ())"
  by (simp add: eval_defs local_world_def local_token_path_def)

lemma save_prepared:
  "save_refresh_token local_token_path ''tok'' prepared_world =
     (prepared_world\<lparr>nodes := (nodes prepared_world)(local_token_path \<mapsto> File ''tok'' 384),
        trace := [Print (SavedToken local_token_path)]\<rparr>, Inr ())"
  by (simp add: eval_defs prepared_world_def local_world_def local_token_path_def)

lemma init_fresh:
  "OneNoteAuth_init None None fresh_world =
     (fresh_world\<lparr>trace := [Getenv ''MS_CLIENT_ID'',
         PublicClientApplication ''test-client-id'' ''https://login.microsoftonline.com/common'']\<rparr>,
      Inr fresh_auth)"
  by (simp add: init_defs eval_defs fresh_world_def local_world_def fresh_auth_def
        local_token_path_def)

lemma init_cached:
  "OneNoteAuth_init None None cached_world =
     (cached_world\<lparr>trace := [Getenv ''MS_CLIENT_ID'',
         PublicClientApplication ''test-client-id'' ''https://login.microsoftonline.com/common'',
         Print (LoadedToken local_token_path)]\<rparr>,
      Inr cached_auth)"
  by (simp add: init_defs eval_defs cached_world_def fresh_world_def local_world_def
        cached_auth_def fresh_auth_def local_token_path_def)

lemma init_docker:
  "OneNoteAuth_init None None docker_world =
     (docker_world\<lparr>trace := [Getenv ''MS_CLIENT_ID'',
         PublicClientApplication ''test-client-id'' ''https://login.microsoftonline.com/common'',
         Print (LoadedToken docker_token_path)]\<rparr>,
      Inr docker_auth)"
  by (simp add: init_defs eval_defs docker_world_def docker_auth_def docker_token_path_def)

lemma init_docker_fresh:
  "OneNoteAuth_init None None docker_fresh_world =
     (docker_fresh_world\<lparr>trace := [Getenv ''MS_CLIENT_ID'',
         PublicClientApplication ''test-client-id'' ''https://login.microsoftonline.com/common'']\<rparr>,
      Inr docker_fresh_auth)"
  by (simp add: init_defs eval_defs docker_fresh_world_def docker_world_def docker_fresh_auth_def
        docker_auth_def docker_token_path_def)

lemma silent_local:
  "get_access_token scenario_B cached_auth cached_world =
     (cached_world\<lparr>nodes := (nodes cached_world)(local_token_path \<mapsto> File ''new-refresh-token-abc'' 384),
        trace := [Print AttemptingSilentRefresh,
                  AcquireTokenByRefreshToken ''old-cached-token'' [''Notes.Read''],
                  Print RefreshedSilently, Print (SavedToken local_token_path)]\<rparr>,
      Inr ''new-access-token-xyz'')"
  by (simp add: flow_defs eval_defs scenario_B_def cached_auth_def fresh_auth_def cached_world_def
        fresh_world_def local_world_def local_token_path_def)

lemma device_local:
  "get_access_token scenario_B fresh_auth fresh_world =
     (fresh_world\<lparr>nodes := (nodes fresh_world)
          ([''/'', ''home'', ''user'', ''.onenote_rag''] \<mapsto> Dir 448,
           local_token_path \<mapsto> File ''device-flow-refresh-token'' 384),
        trace := [InitiateDeviceFlow [''Notes.Read''], Print OpeningRule, Print AuthenticationRequired, Print Rule,
                  Print (OpenOnAnyDevice ''https://microsoft.com/devicelogin''),
                  Print (EnterThisCode ''ABCD-EFGH''), Print ClosingRule,
                  AcquireTokenByDeviceFlow device_flow_response,
                  Print AuthenticationSuccessful, Print (SavedToken local_token_path)]\<rparr>,
      Inr ''device-flow-access-token'')"
  by (simp add: flow_defs eval_defs scenario_B_def device_tokens_def device_flow_response_def
        fresh_auth_def fresh_world_def local_world_def local_token_path_def)

lemma stdout_ok_worlds:
  "stdout_ok local_world" "stdout_ok prepared_world" "stdout_ok docker_world"
  "stdout_ok fresh_world" "stdout_ok cached_world" "stdout_ok blank_world"
  "stdout_ok unreadable_world" "stdout_ok docker_fresh_world"
  by (simp_all add: stdout_ok_def local_world_def prepared_world_def docker_world_def
        fresh_world_def cached_world_def blank_world_def unreadable_world_def
        docker_fresh_world_def)

subsection \<open>What the file-system operations change\<close>

lemma os_mkdir_frame: "os_mkdir p w = (w1, r) \<Longrightarrow> \<exists>n. w1 = w\<lparr>nodes := n\<rparr>"
  by (cases w) (auto simp: os_mkdir_def split: if_splits option.splits node.splits)

lemma path_is_dir_same: "path_is_dir p w = (w1, r) \<Longrightarrow> w1 = w"
  by (auto simp: path_is_dir_def split: if_splits)

lemma path_exists_same: "path_exists p w = (w1, r) \<Longrightarrow> w1 = w"
  by (auto simp: path_exists_def split: if_splits)

lemma mkdir_exist_ok_frame: "mkdir_exist_ok p w = (w1, r) \<Longrightarrow> \<exists>n. w1 = w\<lparr>nodes := n\<rparr>"
  by (auto simp: mkdir_exist_ok_def split: prod.splits sum.splits if_splits
           dest!: os_mkdir_frame path_is_dir_same)

lemma frame_trans:
  "\<exists>n. w1 = w\<lparr>nodes := n\<rparr> \<Longrightarrow> \<exists>n. w2 = w1\<lparr>nodes := n\<rparr> \<Longrightarrow> \<exists>n. w2 = w\<lparr>nodes := n\<rparr>"
  by auto

lemma mkdir_parents_frame: "mkdir_parents p w = (w1, r) \<Longrightarrow> \<exists>n. w1 = w\<lparr>nodes := n\<rparr>"
proof (induction p w arbitrary: w1 r rule: mkdir_parents.induct)
  case (1 p w)
  obtain wa ra where a: "os_mkdir p w = (wa, ra)" by (cases "os_mkdir p w")
  note fa = os_mkdir_frame [OF a]
  show ?case
  proof (cases ra)
    case (Inr u)
    with a "1.prems" fa show ?thesis by (simp add: mkdir_parents.simps [of p w])
  next
    case (Inl e)
    show ?thesis
    proof (cases "is_not_found e \<and> parent p \<noteq> p")
      case False
      with a Inl "1.prems" fa show ?thesis
        by (auto simp: mkdir_parents.simps [of p w] split: if_splits prod.splits sum.splits
                 dest!: path_is_dir_same)
    next
      case True
      obtain wb rb where b: "mkdir_parents (parent p) wa = (wb, rb)"
        by (cases "mkdir_parents (parent p) wa")
      from "1.IH" [OF a [symmetric] Inl _ _ b] True have fb: "\<exists>n. wb = wa\<lparr>nodes := n\<rparr>" by simp
      show ?thesis
      proof (cases rb)
        case (Inl e2)
        with a \<open>ra = Inl e\<close> True b "1.prems" have "w1 = wb"
          by (simp add: mkdir_parents.simps [of p w])
        with fa fb show ?thesis by (blast intro: frame_trans)
      next
        case (Inr u)
        with a \<open>ra = Inl e\<close> True b "1.prems" have "mkdir_exist_ok p wb = (w1, r)"
          by (simp add: mkdir_parents.simps [of p w])
        from mkdir_exist_ok_frame [OF this] fa fb show ?thesis
          by (blast intro: frame_trans)
      qed
    qed
  qed
qed

lemma mkdir_exist_ok_dir:
  "mkdir_exist_ok p w = (w1, Inr u) \<Longrightarrow> \<exists>m. nodes w1 p = Some (Dir m)"
  by (auto simp: mkdir_exist_ok_def os_mkdir_def path_is_dir_def is_dir_def
           split: prod.splits sum.splits if_splits option.splits node.splits)

lemma mkdir_parents_dir:
  "mkdir_parents p w = (w1, Inr u) \<Longrightarrow> \<exists>m. nodes w1 p = Some (Dir m)"
  apply (subst (asm) mkdir_parents.simps)
  apply (auto simp: os_mkdir_def path_is_dir_def is_dir_def
           split: prod.splits sum.splits if_splits option.splits node.splits dest: mkdir_exist_ok_dir)
  done

lemma chmod_frame: "chmod p m w = (w1, r) \<Longrightarrow> \<exists>n. w1 = w\<lparr>nodes := n\<rparr>"
  by (cases w) (auto simp: chmod_def split: if_splits option.splits node.splits)

lemma write_text_frame: "write_text p s w = (w1, r) \<Longrightarrow> \<exists>n. w1 = w\<lparr>nodes := n\<rparr>"
  by (cases w) (auto simp: write_text_def split: if_splits option.splits node.splits)

lemma read_text_same: "read_text p w = (w1, r) \<Longrightarrow> w1 = w"
  by (auto simp: read_text_def split: if_splits option.splits node.splits)

lemma unless_nt_chmod_frame:
  "unless_nt (chmod p m) w = (w1, r) \<Longrightarrow> \<exists>n. w1 = w\<lparr>nodes := n\<rparr>"
  by (cases w) (auto simp: unless_nt_def split: if_splits dest: chmod_frame)

lemma ensure_token_dir_frame:
  "ensure_token_dir tp w = (w1, r) \<Longrightarrow> \<exists>n. w1 = w\<lparr>nodes := n\<rparr>"
proof -
  assume a: "ensure_token_dir tp w = (w1, r)"
  have z: "\<exists>n. w = w\<lparr>nodes := n\<rparr>" by (rule exI [of _ "nodes w"]) simp
  obtain w0 r0 where p: "path_exists (parent tp) w = (w0, r0)"
    by (cases "path_exists (parent tp) w")
  from path_exists_same [OF p] have w0: "w0 = w" .
  show ?thesis
  proof (cases r0)
    case (Inl e)
    with a p w0 z show ?thesis by (simp add: ensure_token_dir_def io_bind_def)
  next
    case (Inr found)
    show ?thesis
    proof (cases found)
      case True
      with a p w0 Inr z show ?thesis by (simp add: ensure_token_dir_def io_bind_def io_return_def)
    next
      case False
      obtain wa ra where m: "mkdir_parents (parent tp) w = (wa, ra)"
        by (cases "mkdir_parents (parent tp) w")
      note fm = mkdir_parents_frame [OF m]
      show ?thesis
      proof (cases ra)
        case (Inl e)
        with a p w0 Inr False m fm show ?thesis
          by (simp add: ensure_token_dir_def io_bind_def)
      next
        case (Inr u)
        with a p w0 \<open>r0 = Inr found\<close> False m
        have "unless_nt (chmod (parent tp) mode_0o700) wa = (w1, r)"
          by (simp add: ensure_token_dir_def io_bind_def)
        from unless_nt_chmod_frame [OF this] fm show ?thesis by (blast intro: frame_trans)
      qed
    qed
  qed
qed

lemma frame_fields:
  assumes "\<exists>n. w1 = w\<lparr>nodes := n\<rparr>"
  shows "trace w1 = trace w" "faults w1 = faults w" "os_name w1 = os_name w"
    "environ w1 = environ w" "dotenv w1 = dotenv w" "home w1 = home w"
    "dir_mode0 w1 = dir_mode0 w" "file_mode0 w1 = file_mode0 w"
    "print_fault w1 = print_fault w" "stdout_ok w1 = stdout_ok w"
  using assms by auto

subsection \<open>What the credential store does\<close>

lemma chmod_success:
  "chmod p m w = (w1, Inr u) \<Longrightarrow>
     (\<exists>c x. nodes w p = Some (File c x) \<and> nodes w1 = (nodes w)(p \<mapsto> File c m))
   \<or> (\<exists>x. nodes w p = Some (Dir x) \<and> nodes w1 = (nodes w)(p \<mapsto> Dir m))"
  by (auto simp: chmod_def split: if_splits option.splits node.splits)

lemma write_text_success:
  "write_text p s w = (w1, Inr u) \<Longrightarrow>
     (\<exists>m. nodes w1 = (nodes w)(p \<mapsto> File (linesep_newlines (os_name w) s) m))
   \<and> \<not> is_dir w p \<and> Write p \<notin> set (faults w)"
  by (auto simp: write_text_def is_dir_def split: if_splits option.splits node.splits)

lemma ensure_token_dir_new:
  assumes "nodes w (parent tp) = None" "os_name w \<noteq> ''nt''"
    and "ensure_token_dir tp w = (w1, Inr u)"
  shows "nodes w1 (parent tp) = Some (Dir mode_0o700)"
proof -
  from assms obtain wa where a: "mkdir_parents (parent tp) w = (wa, Inr ())"
    and b: "unless_nt (chmod (parent tp) mode_0o700) wa = (w1, Inr u)"
    by (auto simp: ensure_token_dir_def path_exists_def io_bind_def io_return_def
             split: prod.splits sum.splits if_splits)
  from frame_fields(3) [OF mkdir_parents_frame [OF a]] assms(2) have "os_name wa \<noteq> ''nt''" by simp
  with b have "chmod (parent tp) mode_0o700 wa = (w1, Inr u)" by (simp add: unless_nt_def)
  from chmod_success [OF this] mkdir_parents_dir [OF a] show ?thesis by auto
qed

lemma ensure_token_dir_old:
  "nodes w (parent tp) \<noteq> None \<Longrightarrow> ensure_token_dir tp w = (w1, Inr u) \<Longrightarrow> w1 = w"
  by (auto simp: ensure_token_dir_def path_exists_def io_bind_def io_return_def
           split: prod.splits sum.splits if_splits)

lemma save_success:
  assumes "save_refresh_token tp token w = (w', Inr u)"
  obtains w1 w2 w3 where "ensure_token_dir tp w = (w1, Inr ())"
    and "write_text tp token w1 = (w2, Inr ())"
    and "unless_nt (chmod tp mode_0o600) w2 = (w3, Inr ())"
    and "\<not> print_fault w3 (SavedToken tp)"
    and "w' = w3\<lparr>trace := trace w3 @ [Print (SavedToken tp)]\<rparr>"
  using assms
  by (auto simp: save_refresh_token_def io_return_def io_raise_def io_bind_def io_try_def
                 emit_def print_def
           split: prod.splits sum.splits if_splits)

text \<open>The steps of the \<^verbatim>\<open>try\<close> block of \<open>save_refresh_token\<close> before its \<^verbatim>\<open>print\<close>.\<close>

lemma save_steps_frame:
  assumes "ensure_token_dir tp w = (w1, Inr ())"
    and "write_text tp token w1 = (w2, Inr ())"
    and "unless_nt (chmod tp mode_0o600) w2 = (w3, Inr ())"
  shows "\<exists>n. w3 = w\<lparr>nodes := n\<rparr>"
  using ensure_token_dir_frame [OF assms(1)] write_text_frame [OF assms(2)]
    unless_nt_chmod_frame [OF assms(3)]
  by (blast intro: frame_trans)

lemma save_failure_iff:
  assumes "stdout_ok w"
  shows "save_refresh_token tp token w = (w', Inl e) \<longleftrightarrow>
     (\<exists>w0. w' = w0\<lparr>trace := trace w0 @ [Print (SaveError tp e)]\<rparr> \<and>
        (ensure_token_dir tp w = (w0, Inl e)
       \<or> (\<exists>w1. ensure_token_dir tp w = (w1, Inr ()) \<and>
            (write_text tp token w1 = (w0, Inl e)
           \<or> (\<exists>w2. write_text tp token w1 = (w2, Inr ()) \<and>
                 unless_nt (chmod tp mode_0o600) w2 = (w0, Inl e))))))"
proof -
  obtain w1 r1 where e: "ensure_token_dir tp w = (w1, r1)" by (cases "ensure_token_dir tp w")
  have o1: "stdout_ok w1" using frame_fields(10) [OF ensure_token_dir_frame [OF e]] assms by simp
  show ?thesis
  proof (cases r1)
    case (Inl e1)
    with e o1 show ?thesis
      by (auto simp: save_refresh_token_def io_bind_def io_try_def io_raise_def print_ok)
  next
    case (Inr u1)
    note r1 = this
    obtain w2 r2 where wr: "write_text tp token w1 = (w2, r2)"
      by (cases "write_text tp token w1")
    have o2: "stdout_ok w2" using frame_fields(10) [OF write_text_frame [OF wr]] o1 by simp
    show ?thesis
    proof (cases r2)
      case (Inl e2)
      with e r1 wr o2 show ?thesis
        by (auto simp: save_refresh_token_def io_bind_def io_try_def io_raise_def print_ok)
    next
      case (Inr u2)
      note r2 = this
      obtain w3 r3 where c: "unless_nt (chmod tp mode_0o600) w2 = (w3, r3)"
        by (cases "unless_nt (chmod tp mode_0o600) w2")
      have o3: "stdout_ok w3" using frame_fields(10) [OF unless_nt_chmod_frame [OF c]] o2 by simp
      show ?thesis
      proof (cases r3)
        case (Inl e3)
        with e r1 wr r2 c o3 show ?thesis
          by (auto simp: save_refresh_token_def io_bind_def io_try_def io_raise_def print_ok)
      next
        case (Inr u3)
        with e r1 wr r2 c o3 show ?thesis
          by (auto simp: save_refresh_token_def io_bind_def io_try_def io_raise_def print_ok)
      qed
    qed
  qed
qed

text \<open>Whatever \<open>save_refresh_token\<close> does, it changes the nodes and prints.\<close>

lemma print_trace:
  "print m w = (w1, r) \<Longrightarrow> \<exists>ms. w1 = w\<lparr>trace := trace w @ map Print ms\<rparr>"
proof (cases "print_fault w m")
  case True
  assume "print m w = (w1, r)"
  with True have "w1 = w\<lparr>trace := trace w @ map Print []\<rparr>" by (simp add: print_def)
  then show ?thesis by blast
next
  case False
  assume "print m w = (w1, r)"
  with False have "w1 = w\<lparr>trace := trace w @ map Print [m]\<rparr>" by (simp add: print_def emit_def)
  then show ?thesis by blast
qed

lemma save_frame:
  assumes "save_refresh_token tp token w = (w', r)"
  shows "\<exists>n ms. w' = w\<lparr>nodes := n, trace := trace w @ map Print ms\<rparr>"
proof -
  let ?body = "io_bind (ensure_token_dir tp) (\<lambda>_.
        io_bind (write_text tp token) (\<lambda>_.
        io_bind (unless_nt (chmod tp mode_0o600)) (\<lambda>_.
        print (SavedToken tp))))"
  obtain wb rb where b: "?body w = (wb, rb)" by (cases "?body w")
  have fb: "\<exists>n ms. wb = w\<lparr>nodes := n, trace := trace w @ map Print ms\<rparr>"
  proof -
    have z: "\<And>v n. v = w\<lparr>nodes := n\<rparr> \<Longrightarrow> v = w\<lparr>nodes := n, trace := trace w @ map Print []\<rparr>"
      by simp
    obtain w1 r1 where e: "ensure_token_dir tp w = (w1, r1)" by (cases "ensure_token_dir tp w")
    from ensure_token_dir_frame [OF e] obtain n1 where f1: "w1 = w\<lparr>nodes := n1\<rparr>" by blast
    show ?thesis
    proof (cases r1)
      case (Inl x)
      with b e have "wb = w1" by (simp add: io_bind_def)
      with z [OF f1] show ?thesis by blast
    next
      case (Inr u1)
      note r1 = this
      obtain w2 r2 where wr: "write_text tp token w1 = (w2, r2)"
        by (cases "write_text tp token w1")
      from frame_trans [OF _ write_text_frame [OF wr]] f1 obtain n2 where
        f2: "w2 = w\<lparr>nodes := n2\<rparr>" by blast
      show ?thesis
      proof (cases r2)
        case (Inl x)
        with b e r1 wr have "wb = w2" by (simp add: io_bind_def)
        with z [OF f2] show ?thesis by blast
      next
        case (Inr u2)
        note r2 = this
        obtain w3 r3 where c: "unless_nt (chmod tp mode_0o600) w2 = (w3, r3)"
          by (cases "unless_nt (chmod tp mode_0o600) w2")
        from frame_trans [OF _ unless_nt_chmod_frame [OF c]] f2 obtain n3 where
          f3: "w3 = w\<lparr>nodes := n3\<rparr>" by blast
        show ?thesis
        proof (cases r3)
          case (Inl x)
          with b e r1 wr r2 c have "wb = w3" by (simp add: io_bind_def)
          with z [OF f3] show ?thesis by blast
        next
          case (Inr u3)
          with b e r1 wr r2 c have "print (SavedToken tp) w3 = (wb, rb)"
            by (simp add: io_bind_def)
          from print_trace [OF this] obtain ms where
            "wb = w3\<lparr>trace := trace w3 @ map Print ms\<rparr>" by blast
          with f3 have "wb = w\<lparr>nodes := n3, trace := trace w @ map Print ms\<rparr>" by simp
          then show ?thesis by blast
        qed
      qed
    qed
  qed
  then obtain n ms where wb: "wb = w\<lparr>nodes := n, trace := trace w @ map Print ms\<rparr>" by blast
  show ?thesis
  proof (cases rb)
    case (Inr u)
    with assms b have "w' = wb" by (simp add: save_refresh_token_def io_try_def)
    with wb show ?thesis by blast
  next
    case (Inl e)
    with assms b have "io_bind (print (SaveError tp e)) (\<lambda>_. io_raise e) wb = (w', r)"
      by (simp add: save_refresh_token_def io_try_def)
    then obtain wp rp where p: "print (SaveError tp e) wb = (wp, rp)" and "w' = wp"
      by (auto simp: io_bind_def io_raise_def split: prod.splits sum.splits)
    from print_trace [OF p] obtain ms2 where "wp = wb\<lparr>trace := trace wb @ map Print ms2\<rparr>"
      by blast
    with wb \<open>w' = wp\<close>
    have "w' = w\<lparr>nodes := n, trace := trace w @ map Print (ms @ ms2)\<rparr>" by simp
    then show ?thesis by blast
  qed
qed

lemma save_trace:
  "save_refresh_token tp token w = (w1, r) \<Longrightarrow> \<exists>ms. trace w1 = trace w @ map Print ms"
  by (drule save_frame) auto

lemma save_stdout_ok:
  "save_refresh_token tp token w = (w1, r) \<Longrightarrow> stdout_ok w1 = stdout_ok w"
  by (drule save_frame) auto

lemma strip_id:
  assumes "s \<noteq> []" "\<not> isspace (hd s)" "\<not> isspace (last s)"
  shows "strip s = s"
proof -
  have a: "dropWhile isspace s = s" using assms(2) by (simp add: dropWhile_eq_self_iff)
  have "dropWhile isspace (rev s) = rev s"
    using assms(1,3) by (simp add: dropWhile_eq_self_iff hd_rev)
  with a show ?thesis by (simp add: strip_def)
qed

lemma universal_newlines_id: "CHR 0x0D \<notin> set s \<Longrightarrow> universal_newlines s = s"
  by (induction s rule: universal_newlines.induct) auto

lemma universal_newlines_crlf:
  "CHR 0x0D \<notin> set s \<Longrightarrow>
   universal_newlines (concat (map (\<lambda>c. if c = CHR 0x0A then [CHR 0x0D, CHR 0x0A] else [c]) s)) = s"
proof (induction s)
  case Nil
  then show ?case by simp
next
  case (Cons c s)
  then have ih: "universal_newlines (concat (map (\<lambda>c. if c = CHR 0x0A then [CHR 0x0D, CHR 0x0A] else [c]) s)) = s"
    and c: "c \<noteq> CHR 0x0D" by auto
  show ?case
  proof (cases "c = CHR 0x0A")
    case True
    with ih show ?thesis by simp
  next
    case False
    with c ih show ?thesis
      by (cases "concat (map (\<lambda>c. if c = CHR 0x0A then [CHR 0x0D, CHR 0x0A] else [c]) s)") auto
  qed
qed

lemma newlines_roundtrip:
  "CHR 0x0D \<notin> set s \<Longrightarrow> universal_newlines (linesep_newlines osname s) = s"
  by (simp add: linesep_newlines_def universal_newlines_id universal_newlines_crlf)

lemma load_of_file:
  assumes "nodes w tp = Some (File c m)" "Stat tp \<notin> set (faults w)" "Read tp \<notin> set (faults w)"
    and "\<not> print_fault w (LoadedToken tp)"
  shows "load_refresh_token tp w =
           (w\<lparr>trace := trace w @ [Print (LoadedToken tp)]\<rparr>,
            Inr (if strip (universal_newlines c) \<noteq> [] then Some (strip (universal_newlines c)) else None))"
  using assms
  by (simp add: load_refresh_token_def path_exists_def read_text_def io_try_def io_bind_def
                io_return_def print_def emit_def Let_def)

lemma save_file:
  assumes "save_refresh_token tp token w = (w', Inr u)"
  shows "\<exists>m. nodes w' tp = Some (File (linesep_newlines (os_name w) token) m)
             \<and> (os_name w \<noteq> ''nt'' \<longrightarrow> m = mode_0o600)"
proof -
  from assms obtain w1 w2 w3 where s: "ensure_token_dir tp w = (w1, Inr ())"
    "write_text tp token w1 = (w2, Inr ())"
    "unless_nt (chmod tp mode_0o600) w2 = (w3, Inr ())"
    "w' = w3\<lparr>trace := trace w3 @ [Print (SavedToken tp)]\<rparr>"
    by (auto elim: save_success)
  have o1: "os_name w1 = os_name w" by (rule frame_fields(3) [OF ensure_token_dir_frame [OF s(1)]])
  have o2: "os_name w2 = os_name w1" by (rule frame_fields(3) [OF write_text_frame [OF s(2)]])
  from write_text_success [OF s(2)] o1 obtain m where
    n2: "nodes w2 tp = Some (File (linesep_newlines (os_name w) token) m)" by auto
  show ?thesis
  proof (cases "os_name w = ''nt''")
    case True
    with s(3) o1 o2 have "w3 = w2" by (simp add: unless_nt_def)
    with n2 s(4) True show ?thesis by simp
  next
    case False
    with s(3) o1 o2 have "chmod tp mode_0o600 w2 = (w3, Inr ())" by (simp add: unless_nt_def)
    from chmod_success [OF this] n2 s(4) False show ?thesis by auto
  qed
qed

subsection \<open>Saving and loading\<close>

text \<open>
  Claim C8, as amended. A credential that is not empty, neither starts nor ends with
  whitespace and holds no carriage return is read back by \<open>load_refresh_token\<close> exactly
  as \<open>save_refresh_token\<close> wrote it, whenever the save returns, the file may be looked at
  and read, and the line that reports the load can be printed; where \<^verbatim>\<open>os.name\<close> is not
  \<^verbatim>\<open>"nt"\<close> the file then holds exactly the credential and has the permission bits
  \<^verbatim>\<open>0o600\<close>.
\<close>

theorem save_load_roundtrip:
  assumes "save_refresh_token tp token w = (w1, Inr u)"
    and "token \<noteq> []" and "\<not> isspace (hd token)" and "\<not> isspace (last token)"
    and "CHR 0x0D \<notin> set token"
    and "Stat tp \<notin> set (faults w)" and "Read tp \<notin> set (faults w)"
    and "\<not> print_fault w (LoadedToken tp)"
  shows "load_refresh_token tp w1 =
           (w1\<lparr>trace := trace w1 @ [Print (LoadedToken tp)]\<rparr>, Inr (Some token))
       \<and> (os_name w \<noteq> ''nt'' \<longrightarrow> nodes w1 tp = Some (File token mode_0o600))"
proof -
  from save_file [OF assms(1)] obtain m where
    n: "nodes w1 tp = Some (File (linesep_newlines (os_name w) token) m)"
    and m: "os_name w \<noteq> ''nt'' \<longrightarrow> m = mode_0o600" by blast
  from save_frame [OF assms(1)] obtain nn ms where
    "w1 = w\<lparr>nodes := nn, trace := trace w @ map Print ms\<rparr>" by blast
  then have "faults w1 = faults w" "print_fault w1 = print_fault w" by simp_all
  with assms(6-8) have r: "Stat tp \<notin> set (faults w1)" "Read tp \<notin> set (faults w1)"
    "\<not> print_fault w1 (LoadedToken tp)" by simp_all
  have "strip (universal_newlines (linesep_newlines (os_name w) token)) = token"
    using assms(2-5) by (simp add: newlines_roundtrip strip_id)
  with load_of_file [OF n r] assms(2) have
    "load_refresh_token tp w1 = (w1\<lparr>trace := trace w1 @ [Print (LoadedToken tp)]\<rparr>, Inr (Some token))"
    by simp
  moreover from n m have "os_name w \<noteq> ''nt'' \<longrightarrow> nodes w1 tp = Some (File token mode_0o600)"
    by (simp add: linesep_newlines_def)
  ultimately show ?thesis by simp
qed

theorem save_load_roundtrip_witness:
  "load_refresh_token local_token_path (fst (save_refresh_token local_token_path ''tok'' local_world))
     = (fst (save_refresh_token local_token_path ''tok'' local_world)
          \<lparr>trace := [Print (SavedToken local_token_path), Print (LoadedToken local_token_path)]\<rparr>,
        Inr (Some ''tok''))
   \<and> nodes (fst (save_refresh_token local_token_path ''tok'' local_world)) local_token_path
       = Some (File ''tok'' mode_0o600)"
proof -
  have s: "save_refresh_token local_token_path ''tok'' local_world
             = (fst (save_refresh_token local_token_path ''tok'' local_world), Inr ())"
    by (simp add: save_local)
  have f: "Stat local_token_path \<notin> set (faults local_world)"
    "Read local_token_path \<notin> set (faults local_world)"
    "\<not> print_fault local_world (LoadedToken local_token_path)"
    and o: "os_name local_world \<noteq> ''nt''"
    by (simp_all add: local_world_def)
  from save_load_roundtrip [OF s _ _ _ _ f] o show ?thesis
    by (simp add: isspace_def save_local mode_0o600_def)
qed

text \<open>
  As stated, for every credential string, the round trip fails: a credential that starts
  with a space is saved with it and loaded without it.
\<close>

theorem save_load_strips_counterexample:
  "snd (save_refresh_token local_token_path '' tok'' local_world) = Inr ()
   \<and> snd (load_refresh_token local_token_path
            (fst (save_refresh_token local_token_path '' tok'' local_world))) = Inr (Some ''tok'')"
  by (simp add: eval_defs local_world_def local_token_path_def)

subsection \<open>The directory of the credential file\<close>

text \<open>
  Claim C10, as amended. When \<open>save_refresh_token\<close> returns, a parent directory that did
  not exist before the call has been made and, where \<^verbatim>\<open>os.name\<close> is not \<^verbatim>\<open>"nt"\<close>, has the
  permission bits \<^verbatim>\<open>0o700\<close>; a parent directory that existed before the call is as it was:
  \<open>ensure_token_dir\<close> changes the bits only of a directory it makes.
\<close>

theorem save_parent_dir_mode:
  assumes "save_refresh_token tp token w = (w', Inr u)"
  shows "(nodes w (parent tp) = None \<and> os_name w \<noteq> ''nt''
            \<longrightarrow> nodes w' (parent tp) = Some (Dir mode_0o700))
       \<and> (is_dir w (parent tp) \<longrightarrow> nodes w' (parent tp) = nodes w (parent tp))"
proof -
  from assms obtain w1 w2 w3 where s: "ensure_token_dir tp w = (w1, Inr ())"
    "write_text tp token w1 = (w2, Inr ())"
    "unless_nt (chmod tp mode_0o600) w2 = (w3, Inr ())"
    "w' = w3\<lparr>trace := trace w3 @ [Print (SavedToken tp)]\<rparr>"
    by (auto elim: save_success)
  have keep: "nodes w' (parent tp) = nodes w1 (parent tp)" if d: "is_dir w1 (parent tp)"
  proof -
    from write_text_success [OF s(2)] d have ne: "tp \<noteq> parent tp" by auto
    with write_text_success [OF s(2)] have "nodes w2 (parent tp) = nodes w1 (parent tp)" by auto
    moreover have "nodes w3 (parent tp) = nodes w2 (parent tp)"
      using s(3) ne by (auto simp: unless_nt_def split: if_splits dest!: chmod_success)
    ultimately show ?thesis using s(4) by simp
  qed
  have "nodes w' (parent tp) = Some (Dir mode_0o700)"
    if "nodes w (parent tp) = None" "os_name w \<noteq> ''nt''"
  proof -
    from ensure_token_dir_new [OF that s(1)] have "nodes w1 (parent tp) = Some (Dir mode_0o700)" .
    with keep show ?thesis by (simp add: is_dir_def)
  qed
  moreover have "nodes w' (parent tp) = nodes w (parent tp)" if "is_dir w (parent tp)"
  proof -
    from that have "nodes w (parent tp) \<noteq> None"
      by (auto simp: is_dir_def split: option.splits)
    from ensure_token_dir_old [OF this s(1)] have "w1 = w" .
    with keep that show ?thesis by simp
  qed
  ultimately show ?thesis by blast
qed

theorem save_parent_dir_mode_witness:
  "nodes (fst (save_refresh_token local_token_path ''tok'' local_world)) (parent local_token_path)
     = Some (Dir mode_0o700)
   \<and> nodes (fst (save_refresh_token local_token_path ''tok'' prepared_world)) (parent local_token_path)
     = nodes prepared_world (parent local_token_path)"
proof -
  have a: "save_refresh_token local_token_path ''tok'' local_world
             = (fst (save_refresh_token local_token_path ''tok'' local_world), Inr ())"
    by (simp add: save_local)
  have b: "save_refresh_token local_token_path ''tok'' prepared_world
             = (fst (save_refresh_token local_token_path ''tok'' prepared_world), Inr ())"
    by (simp add: save_prepared)
  have c: "nodes local_world (parent local_token_path) = None" "os_name local_world \<noteq> ''nt''"
    "is_dir prepared_world (parent local_token_path)"
    by (simp_all add: local_world_def prepared_world_def local_token_path_def parent_def
          is_dir_def)
  from save_parent_dir_mode [OF a] save_parent_dir_mode [OF b] c show ?thesis by blast
qed

text \<open>
  As stated, regardless of whether the directory existed, the claim fails: on a POSIX
  system the save into an existing directory with the bits \<^verbatim>\<open>0o755\<close> (493) returns and
  the directory keeps them.
\<close>

theorem save_existing_dir_counterexample:
  "os_name prepared_world = ''posix''
   \<and> snd (save_refresh_token local_token_path ''tok'' prepared_world) = Inr ()
   \<and> nodes (fst (save_refresh_token local_token_path ''tok'' prepared_world))
        (parent local_token_path) = Some (Dir 493)
   \<and> mode_0o700 = 448"
  by (simp add: eval_defs prepared_world_def local_world_def local_token_path_def)

subsection \<open>Failures of the credential store\<close>

lemma load_returns: "stdout_ok w \<Longrightarrow> \<exists>w1 r. load_refresh_token tp w = (w1, Inr r)"
  by (auto simp: load_refresh_token_def path_exists_def read_text_def io_return_def io_bind_def
                 io_try_def print_ok Let_def
           split: prod.splits sum.splits option.splits node.splits)

lemma load_missing:
  "path_exists tp w = (w, Inr False) \<Longrightarrow> load_refresh_token tp w = (w, Inr None)"
  by (simp add: load_refresh_token_def io_return_def io_bind_def io_try_def)

lemma load_blank:
  "stdout_ok w \<Longrightarrow> path_exists tp w = (w, Inr True) \<Longrightarrow> read_text tp w = (w, Inr s) \<Longrightarrow>
   strip s = [] \<Longrightarrow>
   load_refresh_token tp w = (w\<lparr>trace := trace w @ [Print (LoadedToken tp)]\<rparr>, Inr None)"
  by (simp add: load_refresh_token_def io_return_def io_bind_def io_try_def print_ok)

lemma load_failure:
  "stdout_ok w \<Longrightarrow>
   path_exists tp w = (w, Inl e)
     \<or> (path_exists tp w = (w, Inr True) \<and> read_text tp w = (w, Inl e)) \<Longrightarrow>
   load_refresh_token tp w = (w\<lparr>trace := trace w @ [Print (LoadWarning tp e)]\<rparr>, Inr None)"
  by (auto simp: load_refresh_token_def io_return_def io_bind_def io_try_def print_ok)

text \<open>
  Claim C9, as amended. Where every line can be printed, \<open>load_refresh_token\<close> always
  returns a value: absent when what was read is empty after trimming, and when looking at
  the path or reading the file failed (the failure is printed as a warning); and
  \<open>save_refresh_token\<close> raises exactly when making the directory, writing the file or
  restricting its bits failed, it raises that same failure, and the last line it printed
  before is the failure's. When nothing is at the path, \<open>load_refresh_token\<close> returns
  absent and prints nothing.
\<close>

theorem load_never_raises_save_reraises:
  "(stdout_ok w \<longrightarrow> (\<exists>w1 r. load_refresh_token tp w = (w1, Inr r)))
   \<and> (path_exists tp w = (w, Inr False) \<longrightarrow> load_refresh_token tp w = (w, Inr None))
   \<and> (stdout_ok w \<and> path_exists tp w = (w, Inr True) \<and> read_text tp w = (w, Inr s)
        \<and> strip s = [] \<longrightarrow>
        load_refresh_token tp w = (w\<lparr>trace := trace w @ [Print (LoadedToken tp)]\<rparr>, Inr None))
   \<and> (stdout_ok w
        \<and> (path_exists tp w = (w, Inl e)
            \<or> (path_exists tp w = (w, Inr True) \<and> read_text tp w = (w, Inl e))) \<longrightarrow>
        load_refresh_token tp w = (w\<lparr>trace := trace w @ [Print (LoadWarning tp e)]\<rparr>, Inr None))
   \<and> (stdout_ok w \<longrightarrow>
        (save_refresh_token tp token w = (w', Inl e') \<longleftrightarrow>
          (\<exists>w0. w' = w0\<lparr>trace := trace w0 @ [Print (SaveError tp e')]\<rparr> \<and>
             (ensure_token_dir tp w = (w0, Inl e')
            \<or> (\<exists>w1. ensure_token_dir tp w = (w1, Inr ()) \<and>
                 (write_text tp token w1 = (w0, Inl e')
                \<or> (\<exists>w2. write_text tp token w1 = (w2, Inr ()) \<and>
                      unless_nt (chmod tp mode_0o600) w2 = (w0, Inl e'))))))))"
proof -
  have 1: "stdout_ok w \<longrightarrow> (\<exists>w1 r. load_refresh_token tp w = (w1, Inr r))"
    by (intro impI) (rule load_returns)
  have 2: "path_exists tp w = (w, Inr False) \<longrightarrow> load_refresh_token tp w = (w, Inr None)"
    by (intro impI) (rule load_missing)
  have 3: "stdout_ok w \<and> path_exists tp w = (w, Inr True) \<and> read_text tp w = (w, Inr s)
        \<and> strip s = [] \<longrightarrow>
        load_refresh_token tp w = (w\<lparr>trace := trace w @ [Print (LoadedToken tp)]\<rparr>, Inr None)"
    by (intro impI, elim conjE) (rule load_blank)
  have 4: "stdout_ok w
        \<and> (path_exists tp w = (w, Inl e)
            \<or> (path_exists tp w = (w, Inr True) \<and> read_text tp w = (w, Inl e))) \<longrightarrow>
        load_refresh_token tp w = (w\<lparr>trace := trace w @ [Print (LoadWarning tp e)]\<rparr>, Inr None)"
    by (intro impI, elim conjE) (rule load_failure)
  have 5: "stdout_ok w \<longrightarrow>
        (save_refresh_token tp token w = (w', Inl e') \<longleftrightarrow>
          (\<exists>w0. w' = w0\<lparr>trace := trace w0 @ [Print (SaveError tp e')]\<rparr> \<and>
             (ensure_token_dir tp w = (w0, Inl e')
            \<or> (\<exists>w1. ensure_token_dir tp w = (w1, Inr ()) \<and>
                 (write_text tp token w1 = (w0, Inl e')
                \<or> (\<exists>w2. write_text tp token w1 = (w2, Inr ()) \<and>
                      unless_nt (chmod tp mode_0o600) w2 = (w0, Inl e')))))))"
    by (intro impI) (rule save_failure_iff)
  show ?thesis by (rule conjI [OF 1 conjI [OF 2 conjI [OF 3 conjI [OF 4 5]]]])
qed

theorem load_never_raises_save_reraises_witness:
  "load_refresh_token local_token_path local_world = (local_world, Inr None)
   \<and> load_refresh_token local_token_path blank_world
       = (blank_world\<lparr>trace := [Print (LoadedToken local_token_path)]\<rparr>, Inr None)
   \<and> load_refresh_token local_token_path unreadable_world
       = (unreadable_world\<lparr>trace :=
            [Print (LoadWarning local_token_path (OSError (Read local_token_path)))]\<rparr>, Inr None)
   \<and> (\<exists>w1 r. load_refresh_token local_token_path unreadable_world = (w1, Inr r))
   \<and> save_refresh_token docker_token_path ''new-refresh-token-abc'' docker_world
       = (docker_world\<lparr>trace :=
            [Print (SaveError docker_token_path (OSError (Write docker_token_path)))]\<rparr>,
          Inl (OSError (Write docker_token_path)))"
proof -
  note ok = stdout_ok_worlds
  have a: "path_exists local_token_path local_world = (local_world, Inr False)"
    by (simp add: path_exists_def local_world_def local_token_path_def)
  have b: "path_exists local_token_path blank_world = (blank_world, Inr True)
             \<and> read_text local_token_path blank_world = (blank_world, Inr [CHR 0x20, CHR 0x0A])
             \<and> strip [CHR 0x20, CHR 0x0A] = []"
    by (simp add: path_exists_def read_text_def blank_world_def prepared_world_def local_world_def
          strip_def isspace_def)
  have c: "path_exists local_token_path unreadable_world = (unreadable_world, Inr True)
             \<and> read_text local_token_path unreadable_world
                 = (unreadable_world, Inl (OSError (Read local_token_path)))"
    by (simp add: path_exists_def read_text_def unreadable_world_def prepared_world_def
          local_world_def)
  have d: "ensure_token_dir docker_token_path docker_world = (docker_world, Inr ())
             \<and> write_text docker_token_path ''new-refresh-token-abc'' docker_world
                 = (docker_world, Inl (OSError (Write docker_token_path)))"
    by (simp add: ensure_token_dir_def write_text_def path_exists_def parent_def io_bind_def
          io_return_def docker_world_def docker_token_path_def)
  have t: "trace local_world = []" "trace blank_world = []" "trace unreadable_world = []"
    "trace docker_world = []"
    by (simp_all add: local_world_def blank_world_def prepared_world_def unreadable_world_def
          docker_world_def)
  let ?dw = "docker_world\<lparr>trace :=
            [Print (SaveError docker_token_path (OSError (Write docker_token_path)))]\<rparr>"
  note i1 = load_never_raises_save_reraises [of local_world local_token_path "[]" ImportError
      "[]" local_world ImportError]
  note i2 = load_never_raises_save_reraises [of blank_world local_token_path
      "[CHR 0x20, CHR 0x0A]" ImportError "[]" blank_world ImportError]
  note i3 = load_never_raises_save_reraises [of unreadable_world local_token_path "[]"
      "OSError (Read local_token_path)" "[]" unreadable_world ImportError]
  note i4 = load_never_raises_save_reraises [of docker_world docker_token_path "[]" ImportError
      "''new-refresh-token-abc''" ?dw "OSError (Write docker_token_path)"]
  from i1 [THEN conjunct2, THEN conjunct1, THEN mp, OF a]
  have 1: "load_refresh_token local_token_path local_world = (local_world, Inr None)" .
  from i2 [THEN conjunct2, THEN conjunct2, THEN conjunct1, THEN mp] ok(6) b t(2)
  have 2: "load_refresh_token local_token_path blank_world
       = (blank_world\<lparr>trace := [Print (LoadedToken local_token_path)]\<rparr>, Inr None)"
    by simp
  from i3 [THEN conjunct2, THEN conjunct2, THEN conjunct2, THEN conjunct1, THEN mp] ok(7) c t(3)
  have 3: "load_refresh_token local_token_path unreadable_world
       = (unreadable_world\<lparr>trace :=
            [Print (LoadWarning local_token_path (OSError (Read local_token_path)))]\<rparr>, Inr None)"
    by simp
  from i3 [THEN conjunct1, THEN mp, OF ok(7)]
  have 4: "\<exists>w1 r. load_refresh_token local_token_path unreadable_world = (w1, Inr r)" .
  have "\<exists>w0. ?dw = w0\<lparr>trace := trace w0 @ [Print (SaveError docker_token_path
                                                   (OSError (Write docker_token_path)))]\<rparr>
          \<and> (ensure_token_dir docker_token_path docker_world
                = (w0, Inl (OSError (Write docker_token_path)))
            \<or> (\<exists>w1. ensure_token_dir docker_token_path docker_world = (w1, Inr ()) \<and>
                 (write_text docker_token_path ''new-refresh-token-abc'' w1
                    = (w0, Inl (OSError (Write docker_token_path)))
                \<or> (\<exists>w2. write_text docker_token_path ''new-refresh-token-abc'' w1 = (w2, Inr ()) \<and>
                      unless_nt (chmod docker_token_path mode_0o600) w2
                        = (w0, Inl (OSError (Write docker_token_path)))))))"
    using d t(4) by (intro exI [of _ docker_world]) simp
  with i4 [THEN conjunct2, THEN conjunct2, THEN conjunct2, THEN conjunct2, THEN mp, OF ok(3)]
  have 5: "save_refresh_token docker_token_path ''new-refresh-token-abc'' docker_world
       = (?dw, Inl (OSError (Write docker_token_path)))"
    by (rule iffD2)
  show ?thesis by (rule conjI [OF 1 conjI [OF 2 conjI [OF 3 conjI [OF 4 5]]]])
qed

text \<open>
  As stated, the claim fails where lines cannot be printed: with an output that cannot
  encode the marks of the lines, \<open>load_refresh_token\<close> raises for a credential file that
  is there, and \<open>save_refresh_token\<close> writes the file and then raises the error of the
  output, which is no failure it has printed.
\<close>

theorem load_raises_counterexample:
  "load_refresh_token local_token_path ascii_world = (ascii_world, Inl StdoutError)
   \<and> snd (save_refresh_token local_token_path ''new-refresh-token-abc'' ascii_world)
       = Inl StdoutError
   \<and> nodes (fst (save_refresh_token local_token_path ''new-refresh-token-abc'' ascii_world))
        local_token_path = Some (File ''new-refresh-token-abc'' 384)
   \<and> trace (fst (save_refresh_token local_token_path ''new-refresh-token-abc'' ascii_world)) = []"
  by (simp add: eval_defs ascii_world_def cached_world_def fresh_world_def local_world_def
        local_token_path_def)

subsection \<open>The storage location\<close>

text \<open>
  Claim C7, as amended. \<open>resolve_token_path\<close> returns the path of every override that is
  not empty, without a look at the file system. With no override, or an empty one, it
  looks at the directory \<^verbatim>\<open>/run/secrets\<close>: when the answer is that it exists, the fixed file
  in the secret mount is returned, whatever else the world holds; when the answer is that
  it does not exist and the home directory is known, the fixed file below the home
  directory is returned. A refusal to look at the directory, and the lack of a home
  directory, are raised. The world is never changed, and two worlds that agree on the
  look at \<^verbatim>\<open>/run/secrets\<close> and on the home directory give the same result.
\<close>

theorem resolve_token_path_determined:
  "(s \<noteq> [] \<longrightarrow> resolve_token_path (Some s) w = (w, Inr (Path s)))
   \<and> (\<not> truthy tp \<and> path_exists [''/'', ''run'', ''secrets''] w = (w, Inr True)
        \<longrightarrow> resolve_token_path tp w = (w, Inr [''/'', ''run'', ''secrets'', ''ms_refresh_token'']))
   \<and> (\<not> truthy tp \<and> path_exists [''/'', ''run'', ''secrets''] w = (w, Inr False)
        \<and> home w = Some h
        \<longrightarrow> resolve_token_path tp w = (w, Inr (h @ [''.onenote_rag'', ''refresh_token''])))
   \<and> (\<not> truthy tp \<and> path_exists [''/'', ''run'', ''secrets''] w = (w, Inl e)
        \<longrightarrow> resolve_token_path tp w = (w, Inl e))
   \<and> (\<not> truthy tp \<and> path_exists [''/'', ''run'', ''secrets''] w = (w, Inr False)
        \<and> home w = None
        \<longrightarrow> resolve_token_path tp w = (w, Inl RuntimeError))
   \<and> (snd (path_exists [''/'', ''run'', ''secrets''] w)
          = snd (path_exists [''/'', ''run'', ''secrets''] w')
        \<and> home w = home w'
        \<longrightarrow> snd (resolve_token_path tp w) = snd (resolve_token_path tp w'))"
proof -
  have p: "parent [''/'', ''run'', ''secrets'', ''ms_refresh_token''] = [''/'', ''run'', ''secrets'']"
    "Path ''/run/secrets/ms_refresh_token'' = [''/'', ''run'', ''secrets'', ''ms_refresh_token'']"
    "\<And>h. joinpath (joinpath h ''.onenote_rag'') ''refresh_token''
            = h @ [''.onenote_rag'', ''refresh_token'']"
    by (simp_all add: Path_def anchor_def parent_def joinpath_def)
  have 1: "s \<noteq> [] \<longrightarrow> resolve_token_path (Some s) w = (w, Inr (Path s))"
    by (simp add: resolve_token_path_def truthy_def io_return_def)
  have 2: "\<not> truthy tp \<and> path_exists [''/'', ''run'', ''secrets''] w = (w, Inr True)
        \<longrightarrow> resolve_token_path tp w = (w, Inr [''/'', ''run'', ''secrets'', ''ms_refresh_token''])"
    by (simp add: resolve_token_path_def p io_return_def io_bind_def Let_def)
  have 3: "\<not> truthy tp \<and> path_exists [''/'', ''run'', ''secrets''] w = (w, Inr False)
        \<and> home w = Some h
        \<longrightarrow> resolve_token_path tp w = (w, Inr (h @ [''.onenote_rag'', ''refresh_token'']))"
    by (simp add: resolve_token_path_def p path_home_def io_return_def io_bind_def Let_def)
  have 4: "\<not> truthy tp \<and> path_exists [''/'', ''run'', ''secrets''] w = (w, Inl e)
        \<longrightarrow> resolve_token_path tp w = (w, Inl e)"
    by (simp add: resolve_token_path_def p io_return_def io_bind_def Let_def)
  have 5: "\<not> truthy tp \<and> path_exists [''/'', ''run'', ''secrets''] w = (w, Inr False)
        \<and> home w = None
        \<longrightarrow> resolve_token_path tp w = (w, Inl RuntimeError)"
    by (simp add: resolve_token_path_def p path_home_def io_return_def io_bind_def Let_def)
  have 6: "snd (path_exists [''/'', ''run'', ''secrets''] w)
          = snd (path_exists [''/'', ''run'', ''secrets''] w')
        \<and> home w = home w'
        \<longrightarrow> snd (resolve_token_path tp w) = snd (resolve_token_path tp w')"
    by (auto simp: resolve_token_path_def p path_home_def path_exists_def io_return_def
                   io_bind_def Let_def
             split: if_splits option.splits)
  show ?thesis
    by (rule conjI [OF 1 conjI [OF 2 conjI [OF 3 conjI [OF 4 conjI [OF 5 6]]]]])
qed

theorem resolve_token_path_determined_witness:
  "resolve_token_path (Some ''/tmp/token'') local_world = (local_world, Inr [''/'', ''tmp'', ''token''])
   \<and> resolve_token_path None docker_world
       = (docker_world, Inr [''/'', ''run'', ''secrets'', ''ms_refresh_token''])
   \<and> resolve_token_path None local_world
       = (local_world, Inr [''/'', ''home'', ''user'', ''.onenote_rag'', ''refresh_token''])
   \<and> resolve_token_path None guarded_world
       = (guarded_world, Inl (OSError (Stat [''/'', ''run'', ''secrets''])))
   \<and> resolve_token_path None homeless_world = (homeless_world, Inl RuntimeError)
   \<and> snd (resolve_token_path None prepared_world) = snd (resolve_token_path None local_world)"
proof -
  have a: "\<not> truthy None"
    "path_exists [''/'', ''run'', ''secrets''] docker_world = (docker_world, Inr True)"
    "path_exists [''/'', ''run'', ''secrets''] local_world = (local_world, Inr False)"
    "path_exists [''/'', ''run'', ''secrets''] prepared_world = (prepared_world, Inr False)"
    "path_exists [''/'', ''run'', ''secrets''] guarded_world
       = (guarded_world, Inl (OSError (Stat [''/'', ''run'', ''secrets''])))"
    "path_exists [''/'', ''run'', ''secrets''] homeless_world = (homeless_world, Inr False)"
    "home local_world = Some [''/'', ''home'', ''user'']" "home prepared_world = home local_world"
    "home homeless_world = None"
    "Path ''/tmp/token'' = [''/'', ''tmp'', ''token'']"
    by (simp_all add: truthy_def path_exists_def docker_world_def docker_token_path_def
          local_world_def prepared_world_def guarded_world_def homeless_world_def
          Path_def anchor_def)
  note i1 = resolve_token_path_determined [of "''/tmp/token''" local_world None
      "[''/'', ''home'', ''user'']" ImportError local_world]
  note i2 = resolve_token_path_determined [of "''x''" docker_world None "[]" ImportError
      docker_world]
  note i4 = resolve_token_path_determined [of "''x''" guarded_world None "[]"
      "OSError (Stat [''/'', ''run'', ''secrets''])" guarded_world]
  note i5 = resolve_token_path_determined [of "''x''" homeless_world None "[]" ImportError
      homeless_world]
  note i6 = resolve_token_path_determined [of "''x''" prepared_world None "[]" ImportError
      local_world]
  from i1 [THEN conjunct1] a(10)
  have 1: "resolve_token_path (Some ''/tmp/token'') local_world
             = (local_world, Inr [''/'', ''tmp'', ''token''])" by simp
  from i2 [THEN conjunct2, THEN conjunct1] a(1,2)
  have 2: "resolve_token_path None docker_world
       = (docker_world, Inr [''/'', ''run'', ''secrets'', ''ms_refresh_token''])" by simp
  from i1 [THEN conjunct2, THEN conjunct2, THEN conjunct1] a(1,3,7)
  have 3: "resolve_token_path None local_world
       = (local_world, Inr [''/'', ''home'', ''user'', ''.onenote_rag'', ''refresh_token''])"
    by simp
  from i4 [THEN conjunct2, THEN conjunct2, THEN conjunct2, THEN conjunct1] a(1,5)
  have 4: "resolve_token_path None guarded_world
       = (guarded_world, Inl (OSError (Stat [''/'', ''run'', ''secrets''])))" by simp
  from i5 [THEN conjunct2, THEN conjunct2, THEN conjunct2, THEN conjunct2, THEN conjunct1]
    a(1,6,9)
  have 5: "resolve_token_path None homeless_world = (homeless_world, Inl RuntimeError)" by simp
  from i6 [THEN conjunct2, THEN conjunct2, THEN conjunct2, THEN conjunct2, THEN conjunct2]
    a(3,4,8)
  have 6: "snd (resolve_token_path None prepared_world) = snd (resolve_token_path None local_world)"
    by simp
  show ?thesis
    by (rule conjI [OF 1 conjI [OF 2 conjI [OF 3 conjI [OF 4 conjI [OF 5 6]]]]])
qed

text \<open>
  As stated, for every given override, the claim fails: the empty override is given and
  is not returned (its path has no parts); the location below the home directory is.
\<close>

theorem resolve_token_path_empty_override_counterexample:
  "snd (resolve_token_path (Some []) local_world)
     = Inr [''/'', ''home'', ''user'', ''.onenote_rag'', ''refresh_token'']
   \<and> Path [] = []"
  by (simp add: resolve_token_path_def truthy_def Path_def anchor_def parent_def joinpath_def
        path_exists_def path_home_def io_return_def io_bind_def Let_def local_world_def)

subsection \<open>The client identifier\<close>

lemma guidance_text:
  "guidance =
     ''MS_CLIENT_ID must be set. Options:\<newline>1. Pass as argument: OneNoteAuth(client_id='...')\<newline>2. Set environment variable: export MS_CLIENT_ID='...'\<newline>3. Create .env file for local development (only if not in container)''"
  by (simp add: guidance_def guidance_options_def)

lemma get_client_id_explicit: "c \<noteq> [] \<Longrightarrow> get_client_id ic (Some c) w = (w, Inr c)"
  by (simp add: get_client_id_def truthy_def io_return_def)

lemma get_client_id_environ:
  "\<not> truthy cid \<Longrightarrow> environ w ''MS_CLIENT_ID'' = Some v \<Longrightarrow> v \<noteq> [] \<Longrightarrow>
   get_client_id ic cid w = (w\<lparr>trace := trace w @ [Getenv ''MS_CLIENT_ID'']\<rparr>, Inr v)"
  by (simp add: get_client_id_def truthy_def io_return_def io_bind_def os_getenv_def)

lemma get_client_id_container:
  "ic \<Longrightarrow> get_client_id ic cid w = (w1, r) \<Longrightarrow>
   environ w1 = environ w \<and> (trace w1 = trace w \<or> trace w1 = trace w @ [Getenv ''MS_CLIENT_ID''])"
  by (auto simp: get_client_id_def io_return_def io_raise_def io_bind_def os_getenv_def
           split: if_splits)

lemma get_client_id_dotenv:
  "\<not> truthy cid \<Longrightarrow> \<not> truthy (environ w ''MS_CLIENT_ID'') \<Longrightarrow> \<not> ic \<Longrightarrow>
   dotenv w = Loads vars \<Longrightarrow> (vars ++ environ w) ''MS_CLIENT_ID'' = Some v \<Longrightarrow> v \<noteq> [] \<Longrightarrow>
   get_client_id ic cid w =
     (w\<lparr>environ := vars ++ environ w,
        trace := trace w @ [Getenv ''MS_CLIENT_ID'', LoadDotenv, Getenv ''MS_CLIENT_ID'']\<rparr>, Inr v)"
  by (simp add: get_client_id_def client_id_from_dotenv_def import_dotenv_def load_dotenv_def
        truthy_def io_return_def io_bind_def io_try_def os_getenv_def)

lemma get_client_id_fails:
  assumes "\<not> truthy cid" "\<not> truthy (environ w ''MS_CLIENT_ID'')"
    and "ic \<or> dotenv w = NotInstalled \<or> dotenv w = LoadFails ImportError
         \<or> (\<exists>vars. dotenv w = Loads vars \<and> \<not> truthy ((vars ++ environ w) ''MS_CLIENT_ID''))"
  shows "\<exists>w1. get_client_id ic cid w = (w1, Inl (ValueError guidance))
              \<and> filter provider_event (trace w1) = filter provider_event (trace w)
              \<and> nodes w1 = nodes w"
  using assms
  by (auto simp: get_client_id_def client_id_from_dotenv_def import_dotenv_def load_dotenv_def
                 io_return_def io_raise_def io_bind_def io_try_def os_getenv_def)

lemma get_client_id_load_raises:
  "\<not> truthy cid \<Longrightarrow> \<not> truthy (environ w ''MS_CLIENT_ID'') \<Longrightarrow> \<not> ic \<Longrightarrow>
   dotenv w = LoadFails e \<Longrightarrow> e \<noteq> ImportError \<Longrightarrow>
   snd (get_client_id ic cid w) = Inl e"
  by (simp add: get_client_id_def client_id_from_dotenv_def import_dotenv_def load_dotenv_def
        io_return_def io_raise_def io_bind_def io_try_def os_getenv_def)

text \<open>
  Claim C5, as amended. \<open>get_client_id\<close> returns an explicit identifier that is not empty
  and leaves the world as it is: the environment is not read. Without one it returns the
  variable \<^verbatim>\<open>MS_CLIENT_ID\<close> when that is set and not empty, after one read of the
  environment. In a container the \<^verbatim>\<open>.env\<close> file is never loaded: the environment stays as
  it was. Outside one, the file is loaded and the variable read again. When no source
  gives an identifier (and the file was not to be loaded, the package is missing, or the
  load returned) the \<^verbatim>\<open>ValueError\<close> is raised whose message lists the three options; when
  the load itself raises something other than an \<^verbatim>\<open>ImportError\<close>, that is raised instead.
\<close>

theorem get_client_id_precedence:
  "(c \<noteq> [] \<longrightarrow> get_client_id ic (Some c) w = (w, Inr c))
   \<and> (\<not> truthy cid \<and> environ w ''MS_CLIENT_ID'' = Some v \<and> v \<noteq> [] \<longrightarrow>
        get_client_id ic cid w = (w\<lparr>trace := trace w @ [Getenv ''MS_CLIENT_ID'']\<rparr>, Inr v))
   \<and> (ic \<and> get_client_id ic cid w = (w1, r) \<longrightarrow>
        environ w1 = environ w
        \<and> (trace w1 = trace w \<or> trace w1 = trace w @ [Getenv ''MS_CLIENT_ID'']))
   \<and> (\<not> truthy cid \<and> \<not> truthy (environ w ''MS_CLIENT_ID'') \<and> \<not> ic
        \<and> dotenv w = Loads vars \<and> (vars ++ environ w) ''MS_CLIENT_ID'' = Some v' \<and> v' \<noteq> [] \<longrightarrow>
        get_client_id ic cid w =
          (w\<lparr>environ := vars ++ environ w,
             trace := trace w @ [Getenv ''MS_CLIENT_ID'', LoadDotenv, Getenv ''MS_CLIENT_ID'']\<rparr>,
           Inr v'))
   \<and> (\<not> truthy cid \<and> \<not> truthy (environ w ''MS_CLIENT_ID'')
        \<and> (ic \<or> dotenv w = NotInstalled \<or> dotenv w = LoadFails ImportError
            \<or> (\<exists>vs. dotenv w = Loads vs \<and> \<not> truthy ((vs ++ environ w) ''MS_CLIENT_ID''))) \<longrightarrow>
        snd (get_client_id ic cid w) = Inl (ValueError guidance))
   \<and> (\<not> truthy cid \<and> \<not> truthy (environ w ''MS_CLIENT_ID'') \<and> \<not> ic
        \<and> dotenv w = LoadFails e \<and> e \<noteq> ImportError \<longrightarrow>
        snd (get_client_id ic cid w) = Inl e)
   \<and> guidance =
       ''MS_CLIENT_ID must be set. Options:\<newline>1. Pass as argument: OneNoteAuth(client_id='...')\<newline>2. Set environment variable: export MS_CLIENT_ID='...'\<newline>3. Create .env file for local development (only if not in container)''"
proof -
  have 1: "c \<noteq> [] \<longrightarrow> get_client_id ic (Some c) w = (w, Inr c)"
    by (intro impI) (rule get_client_id_explicit)
  have 2: "\<not> truthy cid \<and> environ w ''MS_CLIENT_ID'' = Some v \<and> v \<noteq> [] \<longrightarrow>
        get_client_id ic cid w = (w\<lparr>trace := trace w @ [Getenv ''MS_CLIENT_ID'']\<rparr>, Inr v)"
    by (intro impI, elim conjE) (rule get_client_id_environ)
  have 3: "ic \<and> get_client_id ic cid w = (w1, r) \<longrightarrow>
        environ w1 = environ w
        \<and> (trace w1 = trace w \<or> trace w1 = trace w @ [Getenv ''MS_CLIENT_ID''])"
    by (intro impI, elim conjE) (rule get_client_id_container)
  have 4: "\<not> truthy cid \<and> \<not> truthy (environ w ''MS_CLIENT_ID'') \<and> \<not> ic
        \<and> dotenv w = Loads vars \<and> (vars ++ environ w) ''MS_CLIENT_ID'' = Some v' \<and> v' \<noteq> [] \<longrightarrow>
        get_client_id ic cid w =
          (w\<lparr>environ := vars ++ environ w,
             trace := trace w @ [Getenv ''MS_CLIENT_ID'', LoadDotenv, Getenv ''MS_CLIENT_ID'']\<rparr>,
           Inr v')"
    by (intro impI, elim conjE) (rule get_client_id_dotenv)
  have 5: "\<not> truthy cid \<and> \<not> truthy (environ w ''MS_CLIENT_ID'')
        \<and> (ic \<or> dotenv w = NotInstalled \<or> dotenv w = LoadFails ImportError
            \<or> (\<exists>vs. dotenv w = Loads vs \<and> \<not> truthy ((vs ++ environ w) ''MS_CLIENT_ID''))) \<longrightarrow>
        snd (get_client_id ic cid w) = Inl (ValueError guidance)"
  proof (intro impI, elim conjE)
    assume a: "\<not> truthy cid" "\<not> truthy (environ w ''MS_CLIENT_ID'')"
      "ic \<or> dotenv w = NotInstalled \<or> dotenv w = LoadFails ImportError
         \<or> (\<exists>vs. dotenv w = Loads vs \<and> \<not> truthy ((vs ++ environ w) ''MS_CLIENT_ID''))"
    from get_client_id_fails [OF a] obtain w1 where
      "get_client_id ic cid w = (w1, Inl (ValueError guidance))" by (elim exE conjE)
    then show "snd (get_client_id ic cid w) = Inl (ValueError guidance)" by simp
  qed
  have 6: "\<not> truthy cid \<and> \<not> truthy (environ w ''MS_CLIENT_ID'') \<and> \<not> ic
        \<and> dotenv w = LoadFails e \<and> e \<noteq> ImportError \<longrightarrow>
        snd (get_client_id ic cid w) = Inl e"
    by (intro impI, elim conjE) (rule get_client_id_load_raises)
  show ?thesis
    by (rule conjI [OF 1 conjI [OF 2 conjI [OF 3 conjI [OF 4 conjI [OF 5 conjI [OF 6
          guidance_text]]]]]])
qed

theorem get_client_id_precedence_witness:
  "get_client_id False (Some ''explicit-id'') docker_world = (docker_world, Inr ''explicit-id'')
   \<and> get_client_id True None docker_world
       = (docker_world\<lparr>trace := [Getenv ''MS_CLIENT_ID'']\<rparr>, Inr ''test-client-id'')
   \<and> environ (fst (get_client_id True None bare_container_world)) = environ bare_container_world
   \<and> get_client_id False None dotenv_world
       = (dotenv_world\<lparr>environ := [''MS_CLIENT_ID'' \<mapsto> ''from-dotenv''],
            trace := [Getenv ''MS_CLIENT_ID'', LoadDotenv, Getenv ''MS_CLIENT_ID'']\<rparr>,
          Inr ''from-dotenv'')
   \<and> snd (get_client_id True None bare_container_world) = Inl (ValueError guidance)
   \<and> snd (get_client_id False None local_world) = Inl (ValueError guidance)
   \<and> snd (get_client_id False None unreadable_dotenv_world) = Inl (OSError (Read [''.env'']))"
proof -
  have a: "\<not> truthy None" "environ docker_world ''MS_CLIENT_ID'' = Some ''test-client-id''"
    "trace docker_world = []" "trace dotenv_world = []"
    "\<not> truthy (environ dotenv_world ''MS_CLIENT_ID'')"
    "dotenv dotenv_world = Loads [''MS_CLIENT_ID'' \<mapsto> ''from-dotenv'']"
    "[''MS_CLIENT_ID'' \<mapsto> ''from-dotenv''] ++ environ dotenv_world
       = [''MS_CLIENT_ID'' \<mapsto> ''from-dotenv'']"
    "\<not> truthy (environ bare_container_world ''MS_CLIENT_ID'')"
    "\<not> truthy (environ local_world ''MS_CLIENT_ID'')" "dotenv local_world = NotInstalled"
    "\<not> truthy (environ unreadable_dotenv_world ''MS_CLIENT_ID'')"
    "dotenv unreadable_dotenv_world = LoadFails (OSError (Read [''.env'']))"
    by (simp_all add: truthy_def docker_world_def dotenv_world_def local_world_def
          bare_container_world_def unreadable_dotenv_world_def)
  have 1: "get_client_id False (Some ''explicit-id'') docker_world = (docker_world, Inr ''explicit-id'')"
    using get_client_id_precedence [of "''explicit-id''" False docker_world None "''x''"
        docker_world "Inr []" Map.empty "''x''" ImportError, THEN conjunct1]
    by simp
  have 2: "get_client_id True None docker_world
       = (docker_world\<lparr>trace := [Getenv ''MS_CLIENT_ID'']\<rparr>, Inr ''test-client-id'')"
    using get_client_id_precedence [of "''x''" True docker_world None "''test-client-id''"
        docker_world "Inr []" Map.empty "''x''" ImportError, THEN conjunct2, THEN conjunct1] a(1-3)
    by simp
  have 3: "environ (fst (get_client_id True None bare_container_world)) = environ bare_container_world"
    using get_client_id_precedence [of "''x''" True bare_container_world None "''x''"
        "fst (get_client_id True None bare_container_world)"
        "snd (get_client_id True None bare_container_world)" Map.empty "''x''" ImportError,
        THEN conjunct2, THEN conjunct2, THEN conjunct1]
    by simp
  have 4: "get_client_id False None dotenv_world
       = (dotenv_world\<lparr>environ := [''MS_CLIENT_ID'' \<mapsto> ''from-dotenv''],
            trace := [Getenv ''MS_CLIENT_ID'', LoadDotenv, Getenv ''MS_CLIENT_ID'']\<rparr>,
          Inr ''from-dotenv'')"
    using get_client_id_precedence [of "''x''" False dotenv_world None "''x''"
        dotenv_world "Inr []" "[''MS_CLIENT_ID'' \<mapsto> ''from-dotenv'']" "''from-dotenv''"
        ImportError,
        THEN conjunct2, THEN conjunct2, THEN conjunct2, THEN conjunct1] a(1,4-7)
    by simp
  have 5: "snd (get_client_id True None bare_container_world) = Inl (ValueError guidance)"
    using get_client_id_precedence [of "''x''" True bare_container_world None "''x''"
        bare_container_world "Inr []" Map.empty "''x''" ImportError,
        THEN conjunct2, THEN conjunct2, THEN conjunct2, THEN conjunct2, THEN conjunct1] a(1,8)
    by simp
  have 6: "snd (get_client_id False None local_world) = Inl (ValueError guidance)"
    using get_client_id_precedence [of "''x''" False local_world None "''x''"
        local_world "Inr []" Map.empty "''x''" ImportError,
        THEN conjunct2, THEN conjunct2, THEN conjunct2, THEN conjunct2, THEN conjunct1] a(1,9,10)
    by simp
  have 7: "snd (get_client_id False None unreadable_dotenv_world) = Inl (OSError (Read [''.env'']))"
    using get_client_id_precedence [of "''x''" False unreadable_dotenv_world None "''x''"
        unreadable_dotenv_world "Inr []" Map.empty "''x''" "OSError (Read [''.env''])",
        THEN conjunct2, THEN conjunct2, THEN conjunct2, THEN conjunct2, THEN conjunct2,
        THEN conjunct1] a(1,11,12)
    by simp
  show ?thesis
    by (rule conjI [OF 1 conjI [OF 2 conjI [OF 3 conjI [OF 4 conjI [OF 5 conjI [OF 6 7]]]]]])
qed

text \<open>
  As stated, the claim fails where the \<^verbatim>\<open>.env\<close> file cannot be read: no source gives an
  identifier, and what is raised is the error of the load, not the \<^verbatim>\<open>ValueError\<close> with the
  three options.
\<close>

theorem get_client_id_unreadable_dotenv_counterexample:
  "get_client_id False None unreadable_dotenv_world
     = (unreadable_dotenv_world\<lparr>trace := [Getenv ''MS_CLIENT_ID'', LoadDotenv]\<rparr>,
        Inl (OSError (Read [''.env''])))"
  by (simp add: get_client_id_def client_id_from_dotenv_def import_dotenv_def load_dotenv_def
        truthy_def io_return_def io_raise_def io_bind_def io_try_def os_getenv_def
        unreadable_dotenv_world_def local_world_def)

subsection \<open>Construction without a client identifier\<close>



subsection \<open>The two paths of \<open>get_access_token\<close>\<close>

lemma no_refresh_in_prints: "filter refresh_exchange_event (map Print ms) = []"
  by (induction ms) simp_all

lemma no_device_flow_in_prints: "filter device_flow_event (map Print ms) = []"
  by (induction ms) simp_all

lemma save_print_fault:
  "save_refresh_token tp token w = (w1, r) \<Longrightarrow> print_fault w1 = print_fault w"
  by (drule save_frame) auto

text \<open>The world after the silent exchange succeeded, before the credential is saved.\<close>

lemma silent_success:
  assumes "refresh_token self = Some old" and "old \<noteq> []"
    and "acquire_token_by_refresh_token prov old (scope self) = Inr result"
    and "result ''access_token'' = Some access"
    and "\<not> print_fault w AttemptingSilentRefresh" and "\<not> print_fault w RefreshedSilently"
  shows "get_access_token prov self w =
           (case result ''refresh_token'' of
              None \<Rightarrow>
                (w\<lparr>trace := trace w @ [Print AttemptingSilentRefresh,
                     AcquireTokenByRefreshToken old (scope self), Print RefreshedSilently]\<rparr>,
                 Inr access)
            | Some new \<Rightarrow>
                (case save_refresh_token (token_path self) new
                        (w\<lparr>trace := trace w @ [Print AttemptingSilentRefresh,
                             AcquireTokenByRefreshToken old (scope self), Print RefreshedSilently]\<rparr>) of
                   (w1, Inl e) \<Rightarrow> (w1, Inl e)
                 | (w1, Inr u) \<Rightarrow> (w1, Inr access)))"
  using assms
  by (simp add: get_access_token_def truthy_def io_return_def io_bind_def emit_def print_def
        io_result_def call_def split: option.splits prod.splits sum.splits)

lemma silent_failure:
  assumes "refresh_token self = Some old" and "old \<noteq> []"
    and "acquire_token_by_refresh_token prov old (scope self) = Inr result"
    and "result ''access_token'' = None"
    and "\<not> print_fault w AttemptingSilentRefresh"
    and "\<not> print_fault w (SilentRefreshFailed (dict_get result ''error_description'' ''Unknown error''))"
    and "\<not> print_fault w FallingBack"
  shows "get_access_token prov self w =
           device_code_flow prov self
             (w\<lparr>trace := trace w @ [Print AttemptingSilentRefresh,
                  AcquireTokenByRefreshToken old (scope self),
                  Print (SilentRefreshFailed (dict_get result ''error_description'' ''Unknown error'')),
                  Print FallingBack]\<rparr>)"
  using assms
  by (simp add: get_access_token_def truthy_def io_return_def io_bind_def emit_def print_def
        io_result_def call_def)

lemma no_cached_credential:
  "\<not> truthy (refresh_token self) \<Longrightarrow> get_access_token prov self w = device_code_flow prov self w"
  by (simp add: get_access_token_def)

lemma device_flow_completes:
  assumes "initiate_device_flow prov (scope self) = Inr flow"
    and "flow ''user_code'' = Some code" and "flow ''verification_uri'' = Some uri"
    and "acquire_token_by_device_flow prov flow = Inr result"
    and "result ''access_token'' = Some access"
    and "\<not> print_fault w OpeningRule" and "\<not> print_fault w AuthenticationRequired"
    and "\<not> print_fault w Rule" and "\<not> print_fault w (OpenOnAnyDevice uri)"
    and "\<not> print_fault w (EnterThisCode code)" and "\<not> print_fault w ClosingRule"
    and "\<not> print_fault w AuthenticationSuccessful"
  shows "device_code_flow prov self w =
           (case result ''refresh_token'' of
              None \<Rightarrow>
                (w\<lparr>trace := trace w @ [InitiateDeviceFlow (scope self), Print OpeningRule, Print AuthenticationRequired, Print Rule,
                     Print (OpenOnAnyDevice uri), Print (EnterThisCode code), Print ClosingRule,
                     AcquireTokenByDeviceFlow flow, Print AuthenticationSuccessful]\<rparr>,
                 Inr access)
            | Some new \<Rightarrow>
                (case save_refresh_token (token_path self) new
                        (w\<lparr>trace := trace w @ [InitiateDeviceFlow (scope self), Print OpeningRule, Print AuthenticationRequired, Print Rule,
                             Print (OpenOnAnyDevice uri), Print (EnterThisCode code), Print ClosingRule,
                             AcquireTokenByDeviceFlow flow, Print AuthenticationSuccessful]\<rparr>) of
                   (w1, Inl e) \<Rightarrow> (w1, Inl e)
                 | (w1, Inr u) \<Rightarrow> (w1, Inr access)))"
  using assms
  by (simp add: device_code_flow_def io_return_def io_bind_def emit_def print_def
        io_result_def call_def split: option.splits prod.splits sum.splits)

text \<open>
  Whatever the device flow does, and whichever of its lines can be printed, it first calls
  the initiation, never calls the refresh exchange, and leaves the output as it was.
\<close>

lemma device_flow_trace:
  assumes "device_code_flow prov self w = (w1, r)"
  shows "\<exists>rest. trace w1 = trace w @ InitiateDeviceFlow (scope self) # rest
                \<and> filter refresh_exchange_event rest = []
                \<and> print_fault w1 = print_fault w"
proof (cases "initiate_device_flow prov (scope self)")
  case (Inl e)
  with assms show ?thesis
    by (auto simp: device_code_flow_def io_bind_def emit_def io_result_def call_def)
next
  case (Inr flow)
  note init = this
  show ?thesis
  proof (cases "flow ''user_code''")
    case None
    with assms init show ?thesis
      by (auto simp: device_code_flow_def io_bind_def io_raise_def emit_def io_result_def call_def)
  next
    case (Some code)
    note code = this
    show ?thesis
    proof (cases "flow ''verification_uri''")
      case None
      with assms init code show ?thesis
        by (auto simp: device_code_flow_def io_bind_def io_raise_def emit_def print_def
              io_result_def call_def split: if_splits)
    next
      case (Some uri)
      note uri = this
      show ?thesis
      proof (cases "print_fault w OpeningRule \<or> print_fault w AuthenticationRequired
                    \<or> print_fault w Rule \<or> print_fault w (OpenOnAnyDevice uri)
                    \<or> print_fault w (EnterThisCode code) \<or> print_fault w ClosingRule")
        case True
        with assms init code uri show ?thesis
          by (auto simp: device_code_flow_def io_bind_def io_raise_def emit_def print_def
                io_result_def call_def split: if_splits)
      next
        case False
        note p4 = this
        show ?thesis
        proof (cases "acquire_token_by_device_flow prov flow")
          case (Inl e)
          with assms init code uri p4 show ?thesis
            by (auto simp: device_code_flow_def io_bind_def io_raise_def emit_def print_def
                  io_result_def call_def)
        next
          case (Inr result)
          note res = this
          show ?thesis
          proof (cases "result ''access_token''")
            case None
            with assms init code uri p4 res show ?thesis
              by (auto simp: device_code_flow_def io_bind_def io_raise_def emit_def print_def
                    io_result_def call_def)
          next
            case (Some access)
            note acc = this
            show ?thesis
            proof (cases "print_fault w AuthenticationSuccessful")
              case True
              with assms init code uri p4 res acc show ?thesis
                by (auto simp: device_code_flow_def io_bind_def io_raise_def emit_def print_def
                      io_result_def call_def)
            next
              case False
              note p5 = this
              from p4 have p: "\<not> print_fault w OpeningRule" "\<not> print_fault w AuthenticationRequired"
       "\<not> print_fault w Rule" "\<not> print_fault w (OpenOnAnyDevice uri)"
                "\<not> print_fault w (EnterThisCode code)" "\<not> print_fault w ClosingRule"
                by simp_all
              note fin = device_flow_completes [OF init code uri res acc p p5]
              show ?thesis
              proof (cases "result ''refresh_token''")
                case None
                with assms fin show ?thesis by auto
              next
                case (Some new)
                let ?w0 = "w\<lparr>trace := trace w @ [InitiateDeviceFlow (scope self), Print OpeningRule, Print AuthenticationRequired, Print Rule,
                             Print (OpenOnAnyDevice uri), Print (EnterThisCode code), Print ClosingRule,
                             AcquireTokenByDeviceFlow flow, Print AuthenticationSuccessful]\<rparr>"
                obtain ws rs where s: "save_refresh_token (token_path self) new ?w0 = (ws, rs)"
                  by (cases "save_refresh_token (token_path self) new ?w0")
                with assms fin Some have "w1 = ws" by (auto split: sum.splits)
                with save_trace [OF s] save_print_fault [OF s] show ?thesis
                  by (auto simp: no_refresh_in_prints)
              qed
            qed
          qed
        qed
      qed
    qed
  qed
qed

lemma get_access_token_print_fault:
  assumes "get_access_token prov self w = (w1, r)"
  shows "print_fault w1 = print_fault w"
proof (cases "truthy (refresh_token self)")
  case False
  with assms have "device_code_flow prov self w = (w1, r)" by (simp add: get_access_token_def)
  from device_flow_trace [OF this] show ?thesis by blast
next
  case True
  then obtain old where old: "refresh_token self = Some old" "old \<noteq> []"
    by (cases "refresh_token self") (auto simp: truthy_def)
  show ?thesis
  proof (cases "print_fault w AttemptingSilentRefresh")
    case True
    with assms old show ?thesis
      by (auto simp: get_access_token_def truthy_def io_bind_def print_def)
  next
    case False
    note p1 = this
    show ?thesis
    proof (cases "acquire_token_by_refresh_token prov old (scope self)")
      case (Inl e)
      with assms old p1 show ?thesis
        by (auto simp: get_access_token_def truthy_def io_bind_def emit_def print_def io_result_def
              call_def)
    next
      case (Inr result)
      note res = this
      show ?thesis
      proof (cases "result ''access_token''")
        case None
        note acc = this
        show ?thesis
        proof (cases "print_fault w (SilentRefreshFailed
                         (dict_get result ''error_description'' ''Unknown error''))
                      \<or> print_fault w FallingBack")
          case True
          with assms old p1 res acc show ?thesis
            by (auto simp: get_access_token_def truthy_def io_bind_def emit_def print_def
                  io_result_def call_def split: if_splits)
        next
          case False
          then have p: "\<not> print_fault w (SilentRefreshFailed
                         (dict_get result ''error_description'' ''Unknown error''))"
            "\<not> print_fault w FallingBack" by simp_all
          from silent_failure [OF old res acc p1 p] assms
          have "device_code_flow prov self
             (w\<lparr>trace := trace w @ [Print AttemptingSilentRefresh,
                  AcquireTokenByRefreshToken old (scope self),
                  Print (SilentRefreshFailed (dict_get result ''error_description'' ''Unknown error'')),
                  Print FallingBack]\<rparr>) = (w1, r)" by simp
          from device_flow_trace [OF this] show ?thesis by auto
        qed
      next
        case (Some access)
        note acc = this
        show ?thesis
        proof (cases "print_fault w RefreshedSilently")
          case True
          with assms old p1 res acc show ?thesis
            by (auto simp: get_access_token_def truthy_def io_bind_def emit_def print_def
                  io_result_def call_def)
        next
          case False
          note fin = silent_success [OF old res acc p1 False]
          show ?thesis
          proof (cases "result ''refresh_token''")
            case None
            with assms fin show ?thesis by auto
          next
            case (Some new)
            let ?w0 = "w\<lparr>trace := trace w @ [Print AttemptingSilentRefresh,
                     AcquireTokenByRefreshToken old (scope self), Print RefreshedSilently]\<rparr>"
            obtain ws rs where s: "save_refresh_token (token_path self) new ?w0 = (ws, rs)"
              by (cases "save_refresh_token (token_path self) new ?w0")
            with assms fin Some have "w1 = ws" by (auto split: sum.splits)
            with save_print_fault [OF s] show ?thesis by simp
          qed
        qed
      qed
    qed
  qed
qed

text \<open>A call that returns has printed its first line.\<close>

lemma returned_printed:
  assumes "get_access_token prov self w = (w1, Inr access)" and "truthy (refresh_token self)"
  shows "\<not> print_fault w AttemptingSilentRefresh"
  using assms
  by (auto simp: get_access_token_def io_bind_def print_def)

lemma cached_call_trace:
  assumes "refresh_token self = Some old" and "old \<noteq> []"
    and "\<not> print_fault w AttemptingSilentRefresh"
  shows "\<exists>rest. trace (fst (get_access_token prov self w)) =
           trace w @ Print AttemptingSilentRefresh
                   # AcquireTokenByRefreshToken old (scope self) # rest"
proof (cases "acquire_token_by_refresh_token prov old (scope self)")
  case (Inl e)
  with assms show ?thesis
    by (simp add: get_access_token_def truthy_def io_bind_def emit_def print_def io_result_def
          call_def)
next
  case (Inr result)
  note res = this
  show ?thesis
  proof (cases "result ''access_token''")
    case None
    note acc = this
    show ?thesis
    proof (cases "print_fault w (SilentRefreshFailed
                     (dict_get result ''error_description'' ''Unknown error''))
                  \<or> print_fault w FallingBack")
      case True
      with assms res acc show ?thesis
        by (auto simp: get_access_token_def truthy_def io_bind_def emit_def print_def
              io_result_def call_def split: if_splits)
    next
      case False
      then have p: "\<not> print_fault w (SilentRefreshFailed
                     (dict_get result ''error_description'' ''Unknown error''))"
        "\<not> print_fault w FallingBack" by simp_all
      let ?w0 = "w\<lparr>trace := trace w @ [Print AttemptingSilentRefresh,
                  AcquireTokenByRefreshToken old (scope self),
                  Print (SilentRefreshFailed (dict_get result ''error_description'' ''Unknown error'')),
                  Print FallingBack]\<rparr>"
      obtain wd rd where d: "device_code_flow prov self ?w0 = (wd, rd)"
        by (cases "device_code_flow prov self ?w0")
      from device_flow_trace [OF d] obtain rest where
        "trace wd = trace ?w0 @ InitiateDeviceFlow (scope self) # rest" by blast
      with silent_failure [OF assms(1,2) res acc assms(3) p] d show ?thesis by simp
    qed
  next
    case (Some access)
    note acc = this
    let ?w0 = "w\<lparr>trace := trace w @ [Print AttemptingSilentRefresh,
                     AcquireTokenByRefreshToken old (scope self), Print RefreshedSilently]\<rparr>"
    show ?thesis
    proof (cases "print_fault w RefreshedSilently")
      case True
      with assms res acc show ?thesis
        by (auto simp: get_access_token_def truthy_def io_bind_def emit_def print_def
              io_result_def call_def)
    next
      case False
      note fin = silent_success [OF assms(1,2) res acc assms(3) False]
      show ?thesis
      proof (cases "result ''refresh_token''")
        case None
        with fin show ?thesis by simp
      next
        case (Some new)
        obtain ws rs where s: "save_refresh_token (token_path self) new ?w0 = (ws, rs)"
          by (cases "save_refresh_token (token_path self) new ?w0")
        from save_trace [OF s] obtain ms where "trace ws = trace ?w0 @ map Print ms" by blast
        with fin Some s show ?thesis
          by (simp split: sum.splits)
      qed
    qed
  qed
qed

lemma device_flow_saves:
  assumes "device_code_flow prov self w = (w1, Inr access)"
    and "initiate_device_flow prov (scope self) = Inr flow"
    and "acquire_token_by_device_flow prov flow = Inr dres"
    and "dres ''refresh_token'' = Some new"
  shows "\<exists>m. nodes w1 (token_path self) = Some (File (linesep_newlines (os_name w) new) m)"
proof -
  from assms(1-3) obtain code uri where
    h: "flow ''user_code'' = Some code" "flow ''verification_uri'' = Some uri"
       "dres ''access_token'' = Some access"
    and p: "\<not> print_fault w OpeningRule" "\<not> print_fault w AuthenticationRequired"
       "\<not> print_fault w Rule" "\<not> print_fault w (OpenOnAnyDevice uri)"
       "\<not> print_fault w (EnterThisCode code)" "\<not> print_fault w ClosingRule"
       "\<not> print_fault w AuthenticationSuccessful"
    by (auto simp: device_code_flow_def io_return_def io_raise_def io_bind_def emit_def print_def
                   io_result_def call_def
             split: option.splits prod.splits sum.splits if_splits)
  let ?w0 = "w\<lparr>trace := trace w @ [InitiateDeviceFlow (scope self), Print OpeningRule, Print AuthenticationRequired, Print Rule,
                 Print (OpenOnAnyDevice uri), Print (EnterThisCode code), Print ClosingRule,
                 AcquireTokenByDeviceFlow flow, Print AuthenticationSuccessful]\<rparr>"
  from device_flow_completes [OF assms(2) h(1,2) assms(3) h(3) p] assms(1,4)
  have "save_refresh_token (token_path self) new ?w0 = (w1, Inr ())"
    by (simp split: prod.splits sum.splits)
  from save_file [OF this] show ?thesis by auto
qed

subsection \<open>Silent renewal\<close>

text \<open>
  Claim C1, as amended. When the handler holds a cached credential, every line of the
  program can be printed, and the refresh exchange answers with an access token and a new
  refresh token, \<open>get_access_token\<close> saves the new refresh token and calls no operation of
  the device flow. When the save returns, the access token is returned and the credential
  file holds the new refresh token; when the save raises, \<open>get_access_token\<close> raises the
  same error.
\<close>

theorem silent_refresh_success:
  assumes "refresh_token self = Some old" and "old \<noteq> []"
    and "acquire_token_by_refresh_token prov old (scope self) = Inr result"
    and "result ''access_token'' = Some access" and "result ''refresh_token'' = Some new"
    and "save_refresh_token (token_path self) new
           (w\<lparr>trace := trace w @ [Print AttemptingSilentRefresh,
                AcquireTokenByRefreshToken old (scope self), Print RefreshedSilently]\<rparr>) = (w1, r)"
    and "stdout_ok w"
  shows "get_access_token prov self w = (w1, case r of Inl e \<Rightarrow> Inl e | Inr u \<Rightarrow> Inr access)
       \<and> filter device_flow_event (trace w1) = filter device_flow_event (trace w)
       \<and> (r = Inr () \<longrightarrow>
            (\<exists>m. nodes w1 (token_path self) = Some (File (linesep_newlines (os_name w) new) m)))"
proof -
  let ?w0 = "w\<lparr>trace := trace w @ [Print AttemptingSilentRefresh,
                AcquireTokenByRefreshToken old (scope self), Print RefreshedSilently]\<rparr>"
  from assms(7) have p: "\<not> print_fault w AttemptingSilentRefresh" "\<not> print_fault w RefreshedSilently"
    by (simp_all add: stdout_okD)
  have a: "get_access_token prov self w = (w1, case r of Inl e \<Rightarrow> Inl e | Inr u \<Rightarrow> Inr access)"
    using silent_success [OF assms(1-4) p] assms(5,6) by (simp split: sum.splits)
  from save_trace [OF assms(6)] obtain ms where "trace w1 = trace ?w0 @ map Print ms" by blast
  then have b: "filter device_flow_event (trace w1) = filter device_flow_event (trace w)"
    by (simp add: no_device_flow_in_prints)
  have c: "\<exists>m. nodes w1 (token_path self) = Some (File (linesep_newlines (os_name w) new) m)"
    if "r = Inr ()"
    using save_file [of "token_path self" new ?w0 w1 "()"] assms(6) that by auto
  from a b c show ?thesis by blast
qed

theorem silent_refresh_success_witness:
  "get_access_token scenario_B cached_auth cached_world
     = (fst (get_access_token scenario_B cached_auth cached_world), Inr ''new-access-token-xyz'')
   \<and> filter device_flow_event (trace (fst (get_access_token scenario_B cached_auth cached_world))) = []
   \<and> (\<exists>m. nodes (fst (get_access_token scenario_B cached_auth cached_world)) local_token_path
             = Some (File ''new-refresh-token-abc'' m))"
proof -
  let ?w0 = "cached_world\<lparr>trace := trace cached_world @ [Print AttemptingSilentRefresh,
                AcquireTokenByRefreshToken ''old-cached-token'' (scope cached_auth),
                Print RefreshedSilently]\<rparr>"
  let ?res = "[''access_token'' \<mapsto> ''new-access-token-xyz'',
               ''refresh_token'' \<mapsto> ''new-refresh-token-abc'']"
  have s: "save_refresh_token (token_path cached_auth) ''new-refresh-token-abc'' ?w0
             = (fst (get_access_token scenario_B cached_auth cached_world), Inr ())"
    by (simp add: silent_local)
       (simp add: eval_defs cached_auth_def fresh_auth_def cached_world_def
          fresh_world_def local_world_def local_token_path_def)
  have h: "refresh_token cached_auth = Some ''old-cached-token''" "''old-cached-token'' \<noteq> []"
    "acquire_token_by_refresh_token scenario_B ''old-cached-token'' (scope cached_auth) = Inr ?res"
    "?res ''access_token'' = Some ''new-access-token-xyz''"
    "?res ''refresh_token'' = Some ''new-refresh-token-abc''"
    by (simp_all add: cached_auth_def fresh_auth_def scenario_B_def)
  have t: "trace cached_world = []" "os_name cached_world = ''posix''"
    "token_path cached_auth = local_token_path"
    by (simp_all add: cached_world_def fresh_world_def local_world_def cached_auth_def fresh_auth_def)
  from silent_refresh_success [OF h s stdout_ok_worlds(5)] t show ?thesis
    by (simp add: linesep_newlines_def)
qed

text \<open>
  As stated, the claim fails where the credential cannot be saved: in the container
  the handler that \<^verbatim>\<open>OneNoteAuth()\<close> constructs holds the cached credential of the read-only
  secret mount, the refresh exchange answers as in scenario B, and \<open>get_access_token\<close>
  raises the error of the write; the file still holds the old credential.
\<close>

theorem silent_refresh_save_fails_counterexample:
  "snd (OneNoteAuth_init None None docker_world) = Inr docker_auth
   \<and> refresh_token docker_auth = Some ''old-cached-token''
   \<and> snd (get_access_token scenario_B docker_auth docker_world)
       = Inl (OSError (Write docker_token_path))
   \<and> nodes (fst (get_access_token scenario_B docker_auth docker_world)) docker_token_path
       = Some (File ''old-cached-token'' 292)"
  by (simp add: init_docker)
     (simp add: flow_defs eval_defs scenario_B_def docker_auth_def docker_world_def
        docker_token_path_def)

subsection \<open>The device flow without a cached credential\<close>

text \<open>
  Claim C2, as amended. A handler without a cached credential never calls the refresh
  exchange: \<open>get_access_token\<close> is the device flow. When every line of the program can be
  printed and the device flow is initiated with a user code and a verification address and
  completes with an access token and a refresh token, the refresh token is saved; when the
  save returns, the access token is returned and the credential file holds the refresh
  token; when the save raises, \<open>get_access_token\<close> raises the same error.
\<close>

theorem device_flow_only:
  assumes "\<not> truthy (refresh_token self)"
  shows "filter refresh_exchange_event (trace (fst (get_access_token prov self w)))
           = filter refresh_exchange_event (trace w)
       \<and> (stdout_ok w
          \<and> initiate_device_flow prov (scope self) = Inr flow
          \<and> flow ''user_code'' = Some code \<and> flow ''verification_uri'' = Some uri
          \<and> acquire_token_by_device_flow prov flow = Inr result
          \<and> result ''access_token'' = Some access \<and> result ''refresh_token'' = Some new
          \<and> save_refresh_token (token_path self) new
               (w\<lparr>trace := trace w @ [InitiateDeviceFlow (scope self), Print OpeningRule, Print AuthenticationRequired, Print Rule,
                    Print (OpenOnAnyDevice uri), Print (EnterThisCode code), Print ClosingRule,
                    AcquireTokenByDeviceFlow flow, Print AuthenticationSuccessful]\<rparr>) = (w1, r)
          \<longrightarrow> get_access_token prov self w
                = (w1, case r of Inl e \<Rightarrow> Inl e | Inr u \<Rightarrow> Inr access)
              \<and> (r = Inr () \<longrightarrow>
                   (\<exists>m. nodes w1 (token_path self)
                          = Some (File (linesep_newlines (os_name w) new) m))))"
proof -
  let ?w0 = "w\<lparr>trace := trace w @ [InitiateDeviceFlow (scope self), Print OpeningRule, Print AuthenticationRequired, Print Rule,
                    Print (OpenOnAnyDevice uri), Print (EnterThisCode code), Print ClosingRule,
                    AcquireTokenByDeviceFlow flow, Print AuthenticationSuccessful]\<rparr>"
  have g: "get_access_token prov self w = device_code_flow prov self w"
    using assms by (rule no_cached_credential)
  obtain wd rd where d: "device_code_flow prov self w = (wd, rd)"
    by (cases "device_code_flow prov self w")
  from device_flow_trace [OF d] g d
  have 1: "filter refresh_exchange_event (trace (fst (get_access_token prov self w)))
           = filter refresh_exchange_event (trace w)"
    by auto
  have 2: "get_access_token prov self w = (w1, case r of Inl e \<Rightarrow> Inl e | Inr u \<Rightarrow> Inr access)
           \<and> (r = Inr () \<longrightarrow>
                (\<exists>m. nodes w1 (token_path self) = Some (File (linesep_newlines (os_name w) new) m)))"
    if ok: "stdout_ok w"
      and h: "initiate_device_flow prov (scope self) = Inr flow"
      "flow ''user_code'' = Some code" "flow ''verification_uri'' = Some uri"
      "acquire_token_by_device_flow prov flow = Inr result"
      "result ''access_token'' = Some access"
      and n: "result ''refresh_token'' = Some new"
      and s: "save_refresh_token (token_path self) new ?w0 = (w1, r)"
  proof -
    from ok have p: "\<not> print_fault w OpeningRule" "\<not> print_fault w AuthenticationRequired"
       "\<not> print_fault w Rule" "\<not> print_fault w (OpenOnAnyDevice uri)"
      "\<not> print_fault w (EnterThisCode code)" "\<not> print_fault w ClosingRule"
      "\<not> print_fault w AuthenticationSuccessful"
      by (simp_all add: stdout_okD)
    have "get_access_token prov self w = (w1, case r of Inl e \<Rightarrow> Inl e | Inr u \<Rightarrow> Inr access)"
      using device_flow_completes [OF h p] g n s by (simp split: sum.splits)
    moreover have "\<exists>m. nodes w1 (token_path self) = Some (File (linesep_newlines (os_name w) new) m)"
      if "r = Inr ()"
      using save_file [of "token_path self" new ?w0 w1 "()"] s that by auto
    ultimately show ?thesis by blast
  qed
  from 1 2 show ?thesis by blast
qed

theorem device_flow_only_witness:
  "filter refresh_exchange_event (trace (fst (get_access_token scenario_B fresh_auth fresh_world))) = []
   \<and> get_access_token scenario_B fresh_auth fresh_world
       = (fst (get_access_token scenario_B fresh_auth fresh_world), Inr ''device-flow-access-token'')
   \<and> (\<exists>m. nodes (fst (get_access_token scenario_B fresh_auth fresh_world)) local_token_path
             = Some (File ''device-flow-refresh-token'' m))"
proof -
  let ?w0 = "fresh_world\<lparr>trace := trace fresh_world @ [InitiateDeviceFlow (scope fresh_auth),
                Print OpeningRule, Print AuthenticationRequired, Print Rule, Print (OpenOnAnyDevice ''https://microsoft.com/devicelogin''),
                Print (EnterThisCode ''ABCD-EFGH''), Print ClosingRule,
                AcquireTokenByDeviceFlow device_flow_response,
                Print AuthenticationSuccessful]\<rparr>"
  have s: "save_refresh_token (token_path fresh_auth) ''device-flow-refresh-token'' ?w0
             = (fst (get_access_token scenario_B fresh_auth fresh_world), Inr ())"
    by (simp add: device_local)
       (simp add: eval_defs fresh_auth_def fresh_world_def local_world_def local_token_path_def)
  have h: "\<not> truthy (refresh_token fresh_auth)"
    "initiate_device_flow scenario_B (scope fresh_auth) = Inr device_flow_response"
    "device_flow_response ''user_code'' = Some ''ABCD-EFGH''"
    "device_flow_response ''verification_uri'' = Some ''https://microsoft.com/devicelogin''"
    "acquire_token_by_device_flow scenario_B device_flow_response = Inr device_tokens"
    "device_tokens ''access_token'' = Some ''device-flow-access-token''"
    "device_tokens ''refresh_token'' = Some ''device-flow-refresh-token''"
    by (simp_all add: truthy_def fresh_auth_def scenario_B_def device_flow_response_def
          device_tokens_def)
  have t: "trace fresh_world = []" "os_name fresh_world = ''posix''"
    "token_path fresh_auth = local_token_path"
    by (simp_all add: fresh_world_def local_world_def fresh_auth_def)
  from device_flow_only [OF h(1), of scenario_B fresh_world device_flow_response
      "''ABCD-EFGH''" "''https://microsoft.com/devicelogin''" device_tokens
      "''device-flow-access-token''" "''device-flow-refresh-token''"
      "fst (get_access_token scenario_B fresh_auth fresh_world)" "Inr ()"]
    h(2-7) s t stdout_ok_worlds(4)
  show ?thesis by (simp add: linesep_newlines_def)
qed

text \<open>
  As stated, the claim fails where the credential cannot be saved: in the container
  with an empty read-only secret mount the constructed handler has no cached credential,
  the device flow completes with both tokens, and \<open>get_access_token\<close> raises the error of
  the write; nothing is stored.
\<close>

theorem device_flow_save_fails_counterexample:
  "snd (OneNoteAuth_init None None docker_fresh_world) = Inr docker_fresh_auth
   \<and> refresh_token docker_fresh_auth = None
   \<and> acquire_token_by_device_flow scenario_B device_flow_response = Inr device_tokens
   \<and> snd (get_access_token scenario_B docker_fresh_auth docker_fresh_world)
       = Inl (OSError (Write docker_token_path))
   \<and> nodes (fst (get_access_token scenario_B docker_fresh_auth docker_fresh_world))
        docker_token_path = None"
  by (simp add: init_docker_fresh)
     (simp add: flow_defs eval_defs scenario_B_def device_tokens_def device_flow_response_def
        docker_fresh_auth_def docker_auth_def docker_fresh_world_def docker_world_def
        docker_token_path_def)

subsection \<open>Falling back from a failed silent renewal\<close>

text \<open>
  Claim C3, as amended. When the handler holds a cached credential, every line of the
  program can be printed, and the answer of the refresh exchange has no access token,
  \<open>get_access_token\<close> prints the error description and goes on as the device flow does: the initiation is called next; when it gives a
  user code and a verification address the completion is called; when that gives an
  access token, it is returned if no refresh token came with it or the save of that one
  returns, and the error of the save is raised otherwise.
\<close>

theorem silent_failure_falls_back:
  assumes "refresh_token self = Some old" and "old \<noteq> []"
    and "acquire_token_by_refresh_token prov old (scope self) = Inr result"
    and "result ''access_token'' = None" and "stdout_ok w"
  shows "get_access_token prov self w =
           device_code_flow prov self
             (w\<lparr>trace := trace w @ [Print AttemptingSilentRefresh,
                  AcquireTokenByRefreshToken old (scope self),
                  Print (SilentRefreshFailed (dict_get result ''error_description'' ''Unknown error'')),
                  Print FallingBack]\<rparr>)
       \<and> (\<exists>rest. trace (fst (get_access_token prov self w)) =
             trace w @ [Print AttemptingSilentRefresh,
                  AcquireTokenByRefreshToken old (scope self),
                  Print (SilentRefreshFailed (dict_get result ''error_description'' ''Unknown error'')),
                  Print FallingBack, InitiateDeviceFlow (scope self)] @ rest)
       \<and> (initiate_device_flow prov (scope self) = Inr flow
          \<and> flow ''user_code'' = Some code \<and> flow ''verification_uri'' = Some uri
          \<and> acquire_token_by_device_flow prov flow = Inr dres
          \<and> dres ''access_token'' = Some access
          \<longrightarrow> get_access_token prov self w =
                (case dres ''refresh_token'' of
                   None \<Rightarrow>
                     (w\<lparr>trace := trace w @ [Print AttemptingSilentRefresh,
                          AcquireTokenByRefreshToken old (scope self),
                          Print (SilentRefreshFailed
                                   (dict_get result ''error_description'' ''Unknown error'')),
                          Print FallingBack,
                          InitiateDeviceFlow (scope self), Print OpeningRule, Print AuthenticationRequired, Print Rule,
                          Print (OpenOnAnyDevice uri), Print (EnterThisCode code), Print ClosingRule,
                          AcquireTokenByDeviceFlow flow, Print AuthenticationSuccessful]\<rparr>,
                      Inr access)
                 | Some new \<Rightarrow>
                     (case save_refresh_token (token_path self) new
                             (w\<lparr>trace := trace w @ [Print AttemptingSilentRefresh,
                                  AcquireTokenByRefreshToken old (scope self),
                                  Print (SilentRefreshFailed
                                           (dict_get result ''error_description'' ''Unknown error'')),
                                  Print FallingBack,
                                  InitiateDeviceFlow (scope self), Print OpeningRule, Print AuthenticationRequired, Print Rule,
                                  Print (OpenOnAnyDevice uri), Print (EnterThisCode code),
                                  Print ClosingRule, AcquireTokenByDeviceFlow flow,
                                  Print AuthenticationSuccessful]\<rparr>) of
                        (w1, Inl e) \<Rightarrow> (w1, Inl e)
                      | (w1, Inr u) \<Rightarrow> (w1, Inr access))))"
proof -
  let ?w0 = "w\<lparr>trace := trace w @ [Print AttemptingSilentRefresh,
                  AcquireTokenByRefreshToken old (scope self),
                  Print (SilentRefreshFailed (dict_get result ''error_description'' ''Unknown error'')),
                  Print FallingBack]\<rparr>"
  from assms(5) have p: "\<not> print_fault w AttemptingSilentRefresh"
    "\<not> print_fault w (SilentRefreshFailed (dict_get result ''error_description'' ''Unknown error''))"
    "\<not> print_fault w FallingBack"
    and q: "\<not> print_fault ?w0 OpeningRule" "\<not> print_fault ?w0 AuthenticationRequired"
       "\<not> print_fault ?w0 Rule" "\<not> print_fault ?w0 (OpenOnAnyDevice uri)"
    "\<not> print_fault ?w0 (EnterThisCode code)" "\<not> print_fault ?w0 ClosingRule"
    "\<not> print_fault ?w0 AuthenticationSuccessful"
    by (simp_all add: stdout_okD)
  have 1: "get_access_token prov self w = device_code_flow prov self ?w0"
    using assms(1-4) p by (rule silent_failure)
  obtain wd rd where d: "device_code_flow prov self ?w0 = (wd, rd)"
    by (cases "device_code_flow prov self ?w0")
  from device_flow_trace [OF d] obtain rest where
    "trace wd = trace ?w0 @ InitiateDeviceFlow (scope self) # rest" by blast
  with 1 d have 2: "\<exists>rest. trace (fst (get_access_token prov self w)) =
             trace w @ [Print AttemptingSilentRefresh,
                  AcquireTokenByRefreshToken old (scope self),
                  Print (SilentRefreshFailed (dict_get result ''error_description'' ''Unknown error'')),
                  Print FallingBack, InitiateDeviceFlow (scope self)] @ rest"
    by simp
  have 3: "get_access_token prov self w =
                (case dres ''refresh_token'' of
                   None \<Rightarrow>
                     (w\<lparr>trace := trace w @ [Print AttemptingSilentRefresh,
                          AcquireTokenByRefreshToken old (scope self),
                          Print (SilentRefreshFailed
                                   (dict_get result ''error_description'' ''Unknown error'')),
                          Print FallingBack,
                          InitiateDeviceFlow (scope self), Print OpeningRule, Print AuthenticationRequired, Print Rule,
                          Print (OpenOnAnyDevice uri), Print (EnterThisCode code), Print ClosingRule,
                          AcquireTokenByDeviceFlow flow, Print AuthenticationSuccessful]\<rparr>,
                      Inr access)
                 | Some new \<Rightarrow>
                     (case save_refresh_token (token_path self) new
                             (w\<lparr>trace := trace w @ [Print AttemptingSilentRefresh,
                                  AcquireTokenByRefreshToken old (scope self),
                                  Print (SilentRefreshFailed
                                           (dict_get result ''error_description'' ''Unknown error'')),
                                  Print FallingBack,
                                  InitiateDeviceFlow (scope self), Print OpeningRule, Print AuthenticationRequired, Print Rule,
                                  Print (OpenOnAnyDevice uri), Print (EnterThisCode code),
                                  Print ClosingRule, AcquireTokenByDeviceFlow flow,
                                  Print AuthenticationSuccessful]\<rparr>) of
                        (w1, Inl e) \<Rightarrow> (w1, Inl e)
                      | (w1, Inr u) \<Rightarrow> (w1, Inr access)))"
    if h: "initiate_device_flow prov (scope self) = Inr flow"
      "flow ''user_code'' = Some code" "flow ''verification_uri'' = Some uri"
      "acquire_token_by_device_flow prov flow = Inr dres"
      "dres ''access_token'' = Some access"
    using device_flow_completes [OF h q] 1
    by (simp cong: option.case_cong prod.case_cong sum.case_cong)
  from 1 2 3 show ?thesis by blast
qed

theorem silent_failure_falls_back_witness:
  "get_access_token scenario_C cached_auth cached_world
     = device_code_flow scenario_C cached_auth
         (cached_world\<lparr>trace := [Print AttemptingSilentRefresh,
              AcquireTokenByRefreshToken ''old-cached-token'' [''Notes.Read''],
              Print (SilentRefreshFailed ''Unknown error''), Print FallingBack]\<rparr>)
   \<and> snd (get_access_token scenario_C cached_auth cached_world) = Inr ''device-flow-access-token''"
proof -
  let ?res = "[''error'' \<mapsto> ''invalid_grant'']"
  have h: "refresh_token cached_auth = Some ''old-cached-token''" "''old-cached-token'' \<noteq> []"
    "acquire_token_by_refresh_token scenario_C ''old-cached-token'' (scope cached_auth) = Inr ?res"
    "?res ''access_token'' = None"
    by (simp_all add: cached_auth_def fresh_auth_def scenario_C_def)
  have d: "initiate_device_flow scenario_C (scope cached_auth) = Inr device_flow_response
      \<and> device_flow_response ''user_code'' = Some ''ABCD-EFGH''
      \<and> device_flow_response ''verification_uri'' = Some ''https://microsoft.com/devicelogin''
      \<and> acquire_token_by_device_flow scenario_C device_flow_response = Inr device_tokens
      \<and> device_tokens ''access_token'' = Some ''device-flow-access-token''"
    by (simp add: scenario_C_def device_flow_response_def device_tokens_def)
  have t: "trace cached_world = []" "scope cached_auth = [''Notes.Read'']"
    "token_path cached_auth = local_token_path"
    "device_tokens ''refresh_token'' = Some ''device-flow-refresh-token''"
    by (simp_all add: cached_world_def fresh_world_def local_world_def cached_auth_def
          fresh_auth_def device_tokens_def)
  note inst = silent_failure_falls_back [OF h stdout_ok_worlds(5), of device_flow_response
      "''ABCD-EFGH''" "''https://microsoft.com/devicelogin''" device_tokens
      "''device-flow-access-token''"]
  from inst [THEN conjunct1] t(1,2)
  have A: "get_access_token scenario_C cached_auth cached_world
     = device_code_flow scenario_C cached_auth
         (cached_world\<lparr>trace := [Print AttemptingSilentRefresh,
              AcquireTokenByRefreshToken ''old-cached-token'' [''Notes.Read''],
              Print (SilentRefreshFailed ''Unknown error''), Print FallingBack]\<rparr>)"
    by (simp add: dict_get_def)
  from inst [THEN conjunct2, THEN conjunct2, THEN mp, OF d]
  have "get_access_token scenario_C cached_auth cached_world =
          (case save_refresh_token local_token_path ''device-flow-refresh-token''
                  (cached_world\<lparr>trace := [Print AttemptingSilentRefresh,
                       AcquireTokenByRefreshToken ''old-cached-token'' [''Notes.Read''],
                       Print (SilentRefreshFailed ''Unknown error''), Print FallingBack,
                       InitiateDeviceFlow [''Notes.Read''], Print OpeningRule, Print AuthenticationRequired, Print Rule,
                       Print (OpenOnAnyDevice ''https://microsoft.com/devicelogin''),
                       Print (EnterThisCode ''ABCD-EFGH''), Print ClosingRule,
                       AcquireTokenByDeviceFlow device_flow_response,
                       Print AuthenticationSuccessful]\<rparr>) of
             (w1, Inl e) \<Rightarrow> (w1, Inl e)
           | (w1, Inr u) \<Rightarrow> (w1, Inr ''device-flow-access-token''))"
    by (simp add: t dict_get_def)
  then have B: "snd (get_access_token scenario_C cached_auth cached_world)
                  = Inr ''device-flow-access-token''"
    by (simp add: eval_defs cached_world_def fresh_world_def local_world_def local_token_path_def)
  show ?thesis by (rule conjI [OF A B])
qed

text \<open>
  As stated, the claim fails in two ways. In the container with the read-only secret
  mount the silent exchange fails, the device flow succeeds with both tokens, and
  \<open>get_access_token\<close> raises the error of the write instead of returning the access token.
  And when the initiation gives no user code (scenario E), the completion is never
  called.
\<close>

theorem fallback_counterexample:
  "acquire_token_by_device_flow scenario_C device_flow_response = Inr device_tokens
   \<and> snd (get_access_token scenario_C docker_auth docker_world)
       = Inl (OSError (Write docker_token_path))
   \<and> snd (get_access_token scenario_E cached_auth cached_world)
       = Inl (DeviceFlowValueError [''error'' \<mapsto> ''invalid_client''])
   \<and> trace (fst (get_access_token scenario_E cached_auth cached_world))
       = [Print AttemptingSilentRefresh,
          AcquireTokenByRefreshToken ''old-cached-token'' [''Notes.Read''],
          Print (SilentRefreshFailed ''Unknown error''), Print FallingBack,
          InitiateDeviceFlow [''Notes.Read'']]"
  by (simp add: flow_defs eval_defs scenario_C_def scenario_E_def device_tokens_def
        device_flow_response_def docker_auth_def docker_world_def docker_token_path_def
        cached_auth_def fresh_auth_def cached_world_def fresh_world_def local_world_def
        local_token_path_def)

subsection \<open>A second call on the same handler\<close>

text \<open>
  Claim C4, as amended. When a call of \<open>get_access_token\<close> returns, a refresh token that
  the provider issued in that call, in the answer of the refresh exchange or of the
  device flow, is the content of the credential file. The handler itself is unchanged: a
  second call on it presents to the refresh exchange the credential the handler was
  constructed with, and a handler constructed without one goes through the device flow
  again.
\<close>

theorem new_credential_saved_not_adopted:
  assumes "get_access_token prov self w = (w1, Inr access)"
  shows "(refresh_token self = Some old \<and> old \<noteq> []
          \<and> acquire_token_by_refresh_token prov old (scope self) = Inr result
          \<and> result ''access_token'' \<noteq> None \<and> result ''refresh_token'' = Some new
          \<longrightarrow> (\<exists>m. nodes w1 (token_path self)
                      = Some (File (linesep_newlines (os_name w) new) m)))
       \<and> ((\<not> truthy (refresh_token self)
            \<or> (refresh_token self = Some old \<and> old \<noteq> []
                \<and> acquire_token_by_refresh_token prov old (scope self) = Inr result
                \<and> result ''access_token'' = None))
          \<and> initiate_device_flow prov (scope self) = Inr flow
          \<and> acquire_token_by_device_flow prov flow = Inr dres
          \<and> dres ''refresh_token'' = Some new
          \<longrightarrow> (\<exists>m. nodes w1 (token_path self)
                      = Some (File (linesep_newlines (os_name w) new) m)))
       \<and> (refresh_token self = Some old \<and> old \<noteq> []
          \<longrightarrow> (\<exists>rest. trace (fst (get_access_token prov2 self w1)) =
                 trace w1 @ Print AttemptingSilentRefresh
                          # AcquireTokenByRefreshToken old (scope self) # rest))
       \<and> (\<not> truthy (refresh_token self)
          \<longrightarrow> get_access_token prov2 self w1 = device_code_flow prov2 self w1)"
proof -
  have 1: "\<exists>m. nodes w1 (token_path self) = Some (File (linesep_newlines (os_name w) new) m)"
    if h: "refresh_token self = Some old" "old \<noteq> []"
      "acquire_token_by_refresh_token prov old (scope self) = Inr result"
      and a: "result ''access_token'' \<noteq> None" and n: "result ''refresh_token'' = Some new"
  proof -
    let ?w0 = "w\<lparr>trace := trace w @ [Print AttemptingSilentRefresh,
                     AcquireTokenByRefreshToken old (scope self), Print RefreshedSilently]\<rparr>"
    from a obtain acc where acc: "result ''access_token'' = Some acc" by blast
    from h have "truthy (refresh_token self)" by (simp add: truthy_def)
    from returned_printed [OF assms this] have p1: "\<not> print_fault w AttemptingSilentRefresh" .
    from assms h acc p1 have p2: "\<not> print_fault w RefreshedSilently"
      by (auto simp: get_access_token_def truthy_def io_bind_def emit_def print_def io_result_def
            call_def)
    from silent_success [OF h acc p1 p2] assms n
    have "save_refresh_token (token_path self) new ?w0 = (w1, Inr ())"
      by (simp split: prod.splits sum.splits)
    from save_file [OF this] show ?thesis by auto
  qed
  have 2: "\<exists>m. nodes w1 (token_path self) = Some (File (linesep_newlines (os_name w) new) m)"
    if c: "\<not> truthy (refresh_token self)
            \<or> (refresh_token self = Some old \<and> old \<noteq> []
                \<and> acquire_token_by_refresh_token prov old (scope self) = Inr result
                \<and> result ''access_token'' = None)"
      and d: "initiate_device_flow prov (scope self) = Inr flow"
        "acquire_token_by_device_flow prov flow = Inr dres" "dres ''refresh_token'' = Some new"
  proof -
    from c obtain w0 where "get_access_token prov self w = device_code_flow prov self w0"
      and "os_name w0 = os_name w"
    proof
      assume "\<not> truthy (refresh_token self)"
      from no_cached_credential [OF this, of prov w] that show ?thesis by blast
    next
      assume "refresh_token self = Some old \<and> old \<noteq> []
                \<and> acquire_token_by_refresh_token prov old (scope self) = Inr result
                \<and> result ''access_token'' = None"
      then have h: "refresh_token self = Some old" "old \<noteq> []"
        "acquire_token_by_refresh_token prov old (scope self) = Inr result"
        "result ''access_token'' = None" by simp_all
      from h have "truthy (refresh_token self)" by (simp add: truthy_def)
      from returned_printed [OF assms this] have p1: "\<not> print_fault w AttemptingSilentRefresh" .
      from assms h p1 have p2:
        "\<not> print_fault w (SilentRefreshFailed (dict_get result ''error_description'' ''Unknown error''))"
        "\<not> print_fault w FallingBack"
        by (auto simp: get_access_token_def truthy_def io_bind_def emit_def print_def io_result_def
              call_def split: if_splits)
      have "get_access_token prov self w =
           device_code_flow prov self
             (w\<lparr>trace := trace w @ [Print AttemptingSilentRefresh,
                  AcquireTokenByRefreshToken old (scope self),
                  Print (SilentRefreshFailed (dict_get result ''error_description'' ''Unknown error'')),
                  Print FallingBack]\<rparr>)"
        using h p1 p2 by (rule silent_failure)
      with that show ?thesis by simp
    qed
    with assms have "device_code_flow prov self w0 = (w1, Inr access)" by simp
    from device_flow_saves [OF this d] \<open>os_name w0 = os_name w\<close> show ?thesis by simp
  qed
  have 3: "\<exists>rest. trace (fst (get_access_token prov2 self w1)) =
                 trace w1 @ Print AttemptingSilentRefresh
                          # AcquireTokenByRefreshToken old (scope self) # rest"
    if h: "refresh_token self = Some old" "old \<noteq> []"
  proof -
    from h have "truthy (refresh_token self)" by (simp add: truthy_def)
    from returned_printed [OF assms this] get_access_token_print_fault [OF assms]
    have "\<not> print_fault w1 AttemptingSilentRefresh" by simp
    with h show ?thesis by (rule cached_call_trace)
  qed
  have 4: "get_access_token prov2 self w1 = device_code_flow prov2 self w1"
    if "\<not> truthy (refresh_token self)"
    using that by (rule no_cached_credential)
  from 1 2 3 4 show ?thesis by blast
qed

theorem new_credential_saved_not_adopted_witness:
  "(\<exists>m. nodes (fst (get_access_token scenario_B cached_auth cached_world)) local_token_path
          = Some (File ''new-refresh-token-abc'' m))
   \<and> (\<exists>rest. trace (fst (get_access_token scenario_C cached_auth
                              (fst (get_access_token scenario_B cached_auth cached_world)))) =
          trace (fst (get_access_token scenario_B cached_auth cached_world))
            @ Print AttemptingSilentRefresh
            # AcquireTokenByRefreshToken ''old-cached-token'' [''Notes.Read''] # rest)
   \<and> (\<exists>m. nodes (fst (get_access_token scenario_B fresh_auth fresh_world)) local_token_path
          = Some (File ''device-flow-refresh-token'' m))
   \<and> get_access_token scenario_C fresh_auth (fst (get_access_token scenario_B fresh_auth fresh_world))
       = device_code_flow scenario_C fresh_auth
           (fst (get_access_token scenario_B fresh_auth fresh_world))"
proof -
  let ?res = "[''access_token'' \<mapsto> ''new-access-token-xyz'',
               ''refresh_token'' \<mapsto> ''new-refresh-token-abc'']"
  have a: "get_access_token scenario_B cached_auth cached_world
             = (fst (get_access_token scenario_B cached_auth cached_world), Inr ''new-access-token-xyz'')"
    by (simp add: silent_local)
  have b: "get_access_token scenario_B fresh_auth fresh_world
             = (fst (get_access_token scenario_B fresh_auth fresh_world), Inr ''device-flow-access-token'')"
    by (simp add: device_local)
  have h: "refresh_token cached_auth = Some ''old-cached-token'' \<and> ''old-cached-token'' \<noteq> []
      \<and> acquire_token_by_refresh_token scenario_B ''old-cached-token'' (scope cached_auth) = Inr ?res
      \<and> ?res ''access_token'' \<noteq> None \<and> ?res ''refresh_token'' = Some ''new-refresh-token-abc''"
    by (simp add: cached_auth_def fresh_auth_def scenario_B_def)
  have h3: "refresh_token cached_auth = Some ''old-cached-token'' \<and> ''old-cached-token'' \<noteq> []"
    by (simp add: cached_auth_def fresh_auth_def)
  have k: "(\<not> truthy (refresh_token fresh_auth)
            \<or> (refresh_token fresh_auth = Some ''x'' \<and> ''x'' \<noteq> []
                \<and> acquire_token_by_refresh_token scenario_B ''x'' (scope fresh_auth) = Inr ?res
                \<and> ?res ''access_token'' = None))
      \<and> initiate_device_flow scenario_B (scope fresh_auth) = Inr device_flow_response
      \<and> acquire_token_by_device_flow scenario_B device_flow_response = Inr device_tokens
      \<and> device_tokens ''refresh_token'' = Some ''device-flow-refresh-token''"
    by (simp add: truthy_def fresh_auth_def scenario_B_def device_tokens_def)
  have k4: "\<not> truthy (refresh_token fresh_auth)"
    by (simp add: truthy_def fresh_auth_def)
  have t: "token_path cached_auth = local_token_path" "scope cached_auth = [''Notes.Read'']"
    "token_path fresh_auth = local_token_path"
    "os_name cached_world = ''posix''" "os_name fresh_world = ''posix''"
    by (simp_all add: cached_auth_def fresh_auth_def cached_world_def fresh_world_def
          local_world_def)
  note ia = new_credential_saved_not_adopted [OF a, of "''old-cached-token''" ?res
      "''new-refresh-token-abc''" device_flow_response device_tokens scenario_C]
  note ib = new_credential_saved_not_adopted [OF b, of "''x''" ?res
      "''device-flow-refresh-token''" device_flow_response device_tokens scenario_C]
  from ia [THEN conjunct1, THEN mp, OF h] t
  have 1: "\<exists>m. nodes (fst (get_access_token scenario_B cached_auth cached_world)) local_token_path
          = Some (File ''new-refresh-token-abc'' m)"
    by (simp add: linesep_newlines_def)
  from ia [THEN conjunct2, THEN conjunct2, THEN conjunct1, THEN mp, OF h3] t
  have 2: "\<exists>rest. trace (fst (get_access_token scenario_C cached_auth
                              (fst (get_access_token scenario_B cached_auth cached_world)))) =
          trace (fst (get_access_token scenario_B cached_auth cached_world))
            @ Print AttemptingSilentRefresh
            # AcquireTokenByRefreshToken ''old-cached-token'' [''Notes.Read''] # rest"
    by simp
  from ib [THEN conjunct2, THEN conjunct1, THEN mp, OF k] t
  have 3: "\<exists>m. nodes (fst (get_access_token scenario_B fresh_auth fresh_world)) local_token_path
          = Some (File ''device-flow-refresh-token'' m)"
    by (simp add: linesep_newlines_def)
  from ib [THEN conjunct2, THEN conjunct2, THEN conjunct2, THEN mp, OF k4]
  have 4: "get_access_token scenario_C fresh_auth (fst (get_access_token scenario_B fresh_auth fresh_world))
       = device_code_flow scenario_C fresh_auth
           (fst (get_access_token scenario_B fresh_auth fresh_world))" .
  show ?thesis by (rule conjI [OF 1 conjI [OF 2 conjI [OF 3 4]]])
qed

text \<open>
  As stated, the claim fails: the handler constructed with the cached credential
  \<^verbatim>\<open>old-cached-token\<close> is given \<^verbatim>\<open>new-refresh-token-abc\<close> in its first call, which is saved,
  and presents \<^verbatim>\<open>old-cached-token\<close> again in its second call.
\<close>

theorem stale_credential_counterexample:
  "snd (OneNoteAuth_init None None cached_world) = Inr cached_auth
   \<and> snd (get_access_token scenario_B cached_auth cached_world) = Inr ''new-access-token-xyz''
   \<and> nodes (fst (get_access_token scenario_B cached_auth cached_world)) local_token_path
       = Some (File ''new-refresh-token-abc'' 384)
   \<and> trace (fst (get_access_token scenario_B cached_auth
                    (fst (get_access_token scenario_B cached_auth cached_world))))
       = [Print AttemptingSilentRefresh,
          AcquireTokenByRefreshToken ''old-cached-token'' [''Notes.Read''],
          Print RefreshedSilently, Print (SavedToken local_token_path),
          Print AttemptingSilentRefresh,
          AcquireTokenByRefreshToken ''old-cached-token'' [''Notes.Read''],
          Print RefreshedSilently, Print (SavedToken local_token_path)]"
  by (simp add: init_cached silent_local)
     (simp add: flow_defs eval_defs scenario_B_def cached_auth_def fresh_auth_def cached_world_def
        fresh_world_def local_world_def local_token_path_def)

end
